theory Spec2Isabelle
  imports Complex_Main "HOL-Library.AList" "HOL-Library.Monad_Syntax"
begin

section \<open>Salon Profit Planner: data model\<close>

text \<open>
  The planner keeps its inputs in Streamlit's session state (\<^verbatim>\<open>st.session_state\<close>) and
  derives weekly and monthly figures from them in \<^verbatim>\<open>calculate_core_values\<close> (app.py).

  Numbers. The source computes with Python's \<^verbatim>\<open>int\<close> and \<^verbatim>\<open>float\<close>. The engine is
  modelled twice. In the first model amounts and percentages are exact rationals
  (\<^typ>\<open>rat\<close>), so \<^verbatim>\<open>52/12\<close> is the rational \<open>13/3\<close> and no operation rounds. The second
  model (section \<open>The engine in double precision\<close>) repeats the engine with every
  operation rounded to an IEEE 754 double, as the interpreter computes it; the worked
  example, which is about the exact value of a figure, is stated there.

  Dictionaries. A Python \<^verbatim>\<open>dict\<close> keeps its keys in insertion order and has each key once.
  It is modelled as an association list; \<^verbatim>\<open>d[k] = v\<close> is \<^const>\<open>AList.update\<close> (replace in
  place, or append a new key), \<^verbatim>\<open>d.items()\<close> is the list itself, \<^verbatim>\<open>d.values()\<close> is
  \<open>map snd\<close>. Dictionaries whose keys the code reads by literal name only
  (a stylist, a trainee, the salary settings) are records.
\<close>

type_synonym 'v dict = "(string \<times> 'v) list"

record stylist =
  name :: string
  sales :: rat
  guarantee :: rat

record wage_earner =
  earner_name :: string
  wage :: rat

record salary_settings_dict =
  service_commission_percentage :: rat
  retail_commission_percentage :: rat
  national_insurance_percentage :: rat
  pension_contribution_percentage :: rat

text \<open>The dictionary that \<^verbatim>\<open>save_state_for_undo\<close> pushes on the undo stack.\<close>

record undo_entry =
  u_stylists :: "stylist list"
  u_retail_percentage :: rat
  u_fixed_costs :: "rat dict"
  u_variable_costs_percentages :: "rat dict"
  u_salary_settings :: salary_settings_dict
  u_trainees :: "wage_earner list"
  u_receptionists :: "wage_earner list"

text \<open>The \<^verbatim>\<open>'metrics'\<close> dictionary cached in a scenario, and the scenario itself.\<close>

record scenario_metrics =
  monthly_service_sales :: rat
  monthly_retail_sales :: rat
  monthly_total_sales :: rat
  monthly_fixed_costs :: rat
  monthly_variable_costs :: rat
  monthly_profit :: rat
  sc_profit_margin :: rat

record scenario =
  description :: string
  timestamp :: string
  stylist_data :: "stylist list"
  sc_retail_percentage :: rat
  trainee_data :: "wage_earner list"
  receptionist_data :: "wage_earner list"
  sc_salary_settings :: salary_settings_dict
  sc_fixed_costs :: "rat dict"
  sc_variable_costs_percentages :: "rat dict"
  metrics :: scenario_metrics

text \<open>The part of \<^verbatim>\<open>st.session_state\<close> that the planner reads and writes.\<close>

record session_state =
  stylists :: "stylist list"
  retail_percentage :: rat
  fixed_costs :: "rat dict"
  variable_costs_percentages :: "rat dict"
  salary_settings :: salary_settings_dict
  trainees :: "wage_earner list"
  receptionists :: "wage_earner list"
  additional_income :: "rat dict"
  undo_stack :: "undo_entry list"
  scenarios :: "scenario dict"
  current_scenario_name :: string

text \<open>The dictionary returned by \<^verbatim>\<open>calculate_core_values\<close>.\<close>

record core_values =
  weekly_service_sales :: rat
  weekly_retail_sales :: rat
  weekly_total_sales :: rat
  weekly_salary_cost :: rat
  weekly_stylist_salary_cost :: rat
  weekly_trainee_salary_cost :: rat
  weekly_receptionist_salary_cost :: rat
  weekly_retail_commission :: rat
  weekly_ni_cost :: rat
  weekly_pension_cost :: rat
  weekly_total_salary_cost :: rat
  total_service_sales :: rat
  retail_sales :: rat
  monthly_service_retail_sales :: rat
  total_additional_income :: rat
  total_sales :: rat
  total_fixed_costs :: rat
  total_variable_costs :: rat
  profit :: rat
  profit_margin :: rat
  variable_costs :: "rat dict"
  total_salary_cost :: rat
  monthly_retail_commission :: rat
  total_wage_cost_percentage :: rat

section \<open>The derivation engine: \<^verbatim>\<open>calculate_core_values\<close>\<close>

text \<open>
  Python's \<^verbatim>\<open>/\<close> raises \<^verbatim>\<open>ZeroDivisionError\<close> on a zero divisor. A computation that may
  raise returns an option, \<^const>\<open>None\<close> standing for the exception. Divisions by a
  non-zero literal (\<^verbatim>\<open>100\<close>, \<^verbatim>\<open>52/12\<close>) cannot raise and are written with \<open>/\<close>.
\<close>

definition truediv :: "rat \<Rightarrow> rat \<Rightarrow> rat option" where
  "truediv a b = (if b = 0 then None else Some (a / b))"

definition weekly_to_monthly :: rat where
  "weekly_to_monthly = 52 / 12"

definition wages_key :: string where
  "wages_key = ''Wages/Salaries (excluding retail commission)''"

definition retail_commission_key :: string where
  "retail_commission_key = ''Retail Commission''"

text \<open>The local variables of one pass through the stylist loop.\<close>

record stylist_pay =
  service_commission_amount :: rat
  stylist_retail_sales_weekly :: rat
  retail_commission_amount :: rat
  service_earnings :: rat
  total_earnings :: rat

definition stylist_earnings :: "rat \<Rightarrow> rat \<Rightarrow> rat \<Rightarrow> rat \<Rightarrow> stylist \<Rightarrow> stylist_pay option" where
  "stylist_earnings weekly_service_sales' retail_sales_weekly service_commission_pct retail_commission_pct st =
     do {
       let weekly_stylist_sales = sales st;
       let service_commission_amount' = weekly_stylist_sales * (service_commission_pct / 100);
       stylist_retail_sales_weekly' \<leftarrow>
         (if weekly_service_sales' > 0
          then do {
            proportion_of_sales \<leftarrow> truediv weekly_stylist_sales weekly_service_sales';
            Some (retail_sales_weekly * proportion_of_sales)
          }
          else Some 0);
       let retail_commission_amount' = stylist_retail_sales_weekly' * (retail_commission_pct / 100);
       let stylist_guarantee = guarantee st;
       let service_earnings' = max stylist_guarantee service_commission_amount';
       let total_earnings' = service_earnings' + retail_commission_amount';
       Some \<lparr>service_commission_amount = service_commission_amount',
             stylist_retail_sales_weekly = stylist_retail_sales_weekly',
             retail_commission_amount = retail_commission_amount',
             service_earnings = service_earnings',
             total_earnings = total_earnings'\<rparr>
     }"

text \<open>
  The loop \<^verbatim>\<open>for stylist in st.session_state.stylists\<close>; the accumulator is the pair
  (\<^verbatim>\<open>stylist_weekly_salary_cost\<close>, \<^verbatim>\<open>total_weekly_retail_commission\<close>).
\<close>

fun stylists_loop :: "rat \<Rightarrow> rat \<Rightarrow> rat \<Rightarrow> rat \<Rightarrow> stylist list \<Rightarrow> rat \<times> rat \<Rightarrow> (rat \<times> rat) option" where
  "stylists_loop wss rsw scp rcp [] acc = Some acc"
| "stylists_loop wss rsw scp rcp (st # rest) (stylist_weekly_salary_cost, total_weekly_retail_commission) =
     do {
       p \<leftarrow> stylist_earnings wss rsw scp rcp st;
       stylists_loop wss rsw scp rcp rest
         (stylist_weekly_salary_cost + total_earnings p,
          total_weekly_retail_commission + retail_commission_amount p)
     }"

text \<open>The loops over trainees and over receptionists.\<close>

fun wages_loop :: "wage_earner list \<Rightarrow> rat \<Rightarrow> rat" where
  "wages_loop [] acc = acc"
| "wages_loop (e # rest) acc = wages_loop rest (acc + wage e)"

text \<open>
  The base a variable cost is a percentage of, and the loop
  \<^verbatim>\<open>for cost_name, percentage in variable_costs_percentages.items()\<close>; the accumulator is
  the pair (\<^verbatim>\<open>variable_costs\<close>, \<^verbatim>\<open>total_variable_costs\<close>).
\<close>

definition base_value :: "rat \<Rightarrow> rat \<Rightarrow> rat \<Rightarrow> string \<Rightarrow> rat" where
  "base_value retail_sales' total_service_sales' total_sales' cost_name =
     (if cost_name = ''Retail Commission'' \<or> cost_name = ''Retail Stock'' then retail_sales'
      else if cost_name = ''Professional Stock'' then total_service_sales'
      else total_sales')"

fun variable_costs_loop :: "rat \<Rightarrow> rat \<Rightarrow> rat \<Rightarrow> rat dict \<Rightarrow> rat dict \<times> rat \<Rightarrow> rat dict \<times> rat" where
  "variable_costs_loop rs tss ts [] acc = acc"
| "variable_costs_loop rs tss ts ((cost_name, percentage) # rest) (variable_costs', total_variable_costs') =
     (let cost_value = base_value rs tss ts cost_name * (percentage / 100)
      in variable_costs_loop rs tss ts rest
           (AList.update cost_name cost_value variable_costs', total_variable_costs' + cost_value))"

text \<open>
  \<^verbatim>\<open>calculate_core_values\<close> reads the session state, overwrites two entries of
  \<^verbatim>\<open>variable_costs_percentages\<close> in it and returns the dictionary of figures: the model
  returns the new session state with the figures.
\<close>

definition calculate_core_values :: "session_state \<Rightarrow> (session_state \<times> core_values) option" where
  "calculate_core_values s =
     do {
       let weekly_service_sales' = sum_list (map sales (stylists s));
       let retail_percentage' = retail_percentage s;
       let weekly_retail_sales' = weekly_service_sales' * (retail_percentage' / 100);
       let weekly_total_sales' = weekly_service_sales' + weekly_retail_sales';
       let total_service_sales' = weekly_service_sales' * weekly_to_monthly;
       let retail_sales' = weekly_retail_sales' * weekly_to_monthly;
       let total_additional_income' = sum_list (map snd (additional_income s));
       let monthly_service_retail_sales' = weekly_total_sales' * weekly_to_monthly;
       let total_sales' = monthly_service_retail_sales' + total_additional_income';
       let total_fixed_costs' = sum_list (map snd (fixed_costs s));
       let service_commission_pct = service_commission_percentage (salary_settings s);
       let retail_commission_pct = retail_commission_percentage (salary_settings s);
       let national_insurance_pct = national_insurance_percentage (salary_settings s);
       let pension_contribution_pct = pension_contribution_percentage (salary_settings s);
       let retail_sales_weekly = retail_sales' / weekly_to_monthly;
       (stylist_weekly_salary_cost, total_weekly_retail_commission) \<leftarrow>
         stylists_loop weekly_service_sales' retail_sales_weekly
           service_commission_pct retail_commission_pct (stylists s) (0, 0);
       let trainee_weekly_salary_cost = wages_loop (trainees s) 0;
       let receptionist_weekly_salary_cost = wages_loop (receptionists s) 0;
       let total_weekly_salary_cost =
         stylist_weekly_salary_cost + trainee_weekly_salary_cost + receptionist_weekly_salary_cost;
       let national_insurance_cost = total_weekly_salary_cost * (national_insurance_pct / 100);
       let pension_contribution_cost = total_weekly_salary_cost * (pension_contribution_pct / 100);
       let total_additional_costs = national_insurance_cost + pension_contribution_cost;
       let grand_total_weekly_cost = total_weekly_salary_cost + total_additional_costs;
       let total_salary_cost' = grand_total_weekly_cost * weekly_to_monthly;
       let monthly_retail_commission' = total_weekly_retail_commission * weekly_to_monthly;
       vcp1 \<leftarrow>
         (if total_sales' > 0
          then do {
            q \<leftarrow> truediv (total_salary_cost' - monthly_retail_commission') total_sales';
            Some (AList.update wages_key (q * 100) (variable_costs_percentages s))
          }
          else Some (variable_costs_percentages s));
       vcp2 \<leftarrow>
         (if retail_sales' > 0
          then do {
            q \<leftarrow> truediv monthly_retail_commission' retail_sales';
            Some (AList.update retail_commission_key (q * 100) vcp1)
          }
          else Some vcp1);
       let (variable_costs', total_variable_costs') =
         variable_costs_loop retail_sales' total_service_sales' total_sales' vcp2 ([], 0);
       let profit' = total_sales' - total_fixed_costs' - total_variable_costs';
       profit_margin' \<leftarrow>
         (if total_sales' > 0
          then do { q \<leftarrow> truediv profit' total_sales'; Some (q * 100) }
          else Some 0);
       total_wage_cost_percentage' \<leftarrow>
         (if total_sales' > 0
          then do { q \<leftarrow> truediv total_salary_cost' total_sales'; Some (q * 100) }
          else Some 0);
       Some (s\<lparr>variable_costs_percentages := vcp2\<rparr>,
             \<lparr>weekly_service_sales = weekly_service_sales',
              weekly_retail_sales = weekly_retail_sales',
              weekly_total_sales = weekly_total_sales',
              weekly_salary_cost = total_weekly_salary_cost,
              weekly_stylist_salary_cost = stylist_weekly_salary_cost,
              weekly_trainee_salary_cost = trainee_weekly_salary_cost,
              weekly_receptionist_salary_cost = receptionist_weekly_salary_cost,
              weekly_retail_commission = total_weekly_retail_commission,
              weekly_ni_cost = national_insurance_cost,
              weekly_pension_cost = pension_contribution_cost,
              weekly_total_salary_cost = grand_total_weekly_cost,
              total_service_sales = total_service_sales',
              retail_sales = retail_sales',
              monthly_service_retail_sales = monthly_service_retail_sales',
              total_additional_income = total_additional_income',
              total_sales = total_sales',
              total_fixed_costs = total_fixed_costs',
              total_variable_costs = total_variable_costs',
              profit = profit',
              profit_margin = profit_margin',
              variable_costs = variable_costs',
              total_salary_cost = total_salary_cost',
              monthly_retail_commission = monthly_retail_commission',
              total_wage_cost_percentage = total_wage_cost_percentage'\<rparr>)
     }"

section \<open>The engine in double precision\<close>

text \<open>
  Python's \<^verbatim>\<open>float\<close> is the IEEE 754 binary64 format. A finite double is \<open>n * 2 ^ e\<close> with
  an integer \<open>n\<close>, \<open>\<bar>n\<bar> < 2 ^ 53\<close>, and \<open>- 1074 \<le> e \<le> 971\<close>; the operators \<^verbatim>\<open>+\<close>, \<^verbatim>\<open>-\<close>,
  \<^verbatim>\<open>*\<close> and \<^verbatim>\<open>/\<close> return the double nearest to the exact result, a tie going to the even
  \<open>n\<close>. A double is modelled as the rational it denotes and an operator as the exact
  operation followed by \<open>round_to_double\<close>.

  The exponent of a positive rational \<open>a\<close> is the \<open>e\<close> with \<open>2 ^ 52 \<le> a / 2 ^ e < 2 ^ 53\<close>,
  and \<open>- 1074\<close> for the subnormal numbers below that range. Results of magnitude \<open>2 ^ 1024\<close>
  and more (Python's \<^verbatim>\<open>inf\<close> or \<^verbatim>\<open>OverflowError\<close>), \<^verbatim>\<open>inf\<close> and \<^verbatim>\<open>nan\<close> are not modelled.
\<close>

definition round_half_even :: "rat \<Rightarrow> int" where
  "round_half_even q =
     (let n = \<lfloor>q\<rfloor>; r = q - of_int n
      in if r < 1 / 2 then n else if 1 / 2 < r then n + 1 else if even n then n else n + 1)"

definition double_exponent :: "rat \<Rightarrow> int" where
  "double_exponent a =
     (case find (\<lambda>e. 2 ^ 52 \<le> a / 2 powi e \<and> a / 2 powi e < 2 ^ 53) [- 1074 .. 971] of
        Some e \<Rightarrow> e
      | None \<Rightarrow> if a < 1 then - 1074 else 971)"

definition round_to_double :: "rat \<Rightarrow> rat" where
  "round_to_double x =
     (if x = 0 then 0
      else let e = double_exponent \<bar>x\<bar>
           in sgn x * of_int (round_half_even (\<bar>x\<bar> / 2 powi e)) * 2 powi e)"

text \<open>
  The operators. An \<^verbatim>\<open>int\<close> operand is converted to the double of the same value (exactly,
  below \<open>2 ^ 53\<close>) and \<^verbatim>\<open>int / int\<close> is the correctly rounded quotient as well, so the same
  four functions serve \<^verbatim>\<open>int\<close> and \<^verbatim>\<open>float\<close> inputs. \<open>float_div\<close> is a division by a
  non-zero literal, \<open>float_truediv\<close> one that may raise \<^verbatim>\<open>ZeroDivisionError\<close>.
\<close>

definition float_add :: "rat \<Rightarrow> rat \<Rightarrow> rat" where
  "float_add a b = round_to_double (a + b)"

definition float_sub :: "rat \<Rightarrow> rat \<Rightarrow> rat" where
  "float_sub a b = round_to_double (a - b)"

definition float_mul :: "rat \<Rightarrow> rat \<Rightarrow> rat" where
  "float_mul a b = round_to_double (a * b)"

definition float_div :: "rat \<Rightarrow> rat \<Rightarrow> rat" where
  "float_div a b = round_to_double (a / b)"

definition float_truediv :: "rat \<Rightarrow> rat \<Rightarrow> rat option" where
  "float_truediv a b = (if b = 0 then None else Some (float_div a b))"

text \<open>
  The builtin \<^verbatim>\<open>sum\<close>. CPython up to 3.11 adds the items from left to right, starting from
  \<^verbatim>\<open>0\<close>; that is \<open>float_sum\<close>. From 3.12 on it sums floats with a compensation term, which
  can differ from \<open>float_sum\<close> in the last bit. The engine below therefore takes the builtin
  as the parameter \<open>py_sum\<close>.
\<close>

fun float_sum_loop :: "rat list \<Rightarrow> rat \<Rightarrow> rat" where
  "float_sum_loop [] acc = acc"
| "float_sum_loop (x # rest) acc = float_sum_loop rest (float_add acc x)"

definition float_sum :: "rat list \<Rightarrow> rat" where
  "float_sum xs = float_sum_loop xs 0"

text \<open>
  \<^verbatim>\<open>calculate_core_values\<close> and its loops once more, every arithmetic operation of the
  source replaced by the operator on doubles. \<^verbatim>\<open>max\<close> and the comparisons are exact.
\<close>

definition stylist_earnings_float :: "rat \<Rightarrow> rat \<Rightarrow> rat \<Rightarrow> rat \<Rightarrow> stylist \<Rightarrow> stylist_pay option" where
  "stylist_earnings_float weekly_service_sales' retail_sales_weekly service_commission_pct retail_commission_pct st =
     do {
       let weekly_stylist_sales = sales st;
       let service_commission_amount' =
         float_mul weekly_stylist_sales (float_div service_commission_pct 100);
       stylist_retail_sales_weekly' \<leftarrow>
         (if weekly_service_sales' > 0
          then do {
            proportion_of_sales \<leftarrow> float_truediv weekly_stylist_sales weekly_service_sales';
            Some (float_mul retail_sales_weekly proportion_of_sales)
          }
          else Some 0);
       let retail_commission_amount' =
         float_mul stylist_retail_sales_weekly' (float_div retail_commission_pct 100);
       let stylist_guarantee = guarantee st;
       let service_earnings' = max stylist_guarantee service_commission_amount';
       let total_earnings' = float_add service_earnings' retail_commission_amount';
       Some \<lparr>service_commission_amount = service_commission_amount',
             stylist_retail_sales_weekly = stylist_retail_sales_weekly',
             retail_commission_amount = retail_commission_amount',
             service_earnings = service_earnings',
             total_earnings = total_earnings'\<rparr>
     }"

fun stylists_loop_float :: "rat \<Rightarrow> rat \<Rightarrow> rat \<Rightarrow> rat \<Rightarrow> stylist list \<Rightarrow> rat \<times> rat \<Rightarrow> (rat \<times> rat) option" where
  "stylists_loop_float wss rsw scp rcp [] acc = Some acc"
| "stylists_loop_float wss rsw scp rcp (st # rest) (stylist_weekly_salary_cost, total_weekly_retail_commission) =
     do {
       p \<leftarrow> stylist_earnings_float wss rsw scp rcp st;
       stylists_loop_float wss rsw scp rcp rest
         (float_add stylist_weekly_salary_cost (total_earnings p),
          float_add total_weekly_retail_commission (retail_commission_amount p))
     }"

fun wages_loop_float :: "wage_earner list \<Rightarrow> rat \<Rightarrow> rat" where
  "wages_loop_float [] acc = acc"
| "wages_loop_float (e # rest) acc = wages_loop_float rest (float_add acc (wage e))"

fun variable_costs_loop_float :: "rat \<Rightarrow> rat \<Rightarrow> rat \<Rightarrow> rat dict \<Rightarrow> rat dict \<times> rat \<Rightarrow> rat dict \<times> rat" where
  "variable_costs_loop_float rs tss ts [] acc = acc"
| "variable_costs_loop_float rs tss ts ((cost_name, percentage) # rest) (variable_costs', total_variable_costs') =
     (let cost_value = float_mul (base_value rs tss ts cost_name) (float_div percentage 100)
      in variable_costs_loop_float rs tss ts rest
           (AList.update cost_name cost_value variable_costs', float_add total_variable_costs' cost_value))"

definition calculate_core_values_float ::
  "(rat list \<Rightarrow> rat) \<Rightarrow> session_state \<Rightarrow> (session_state \<times> core_values) option" where
  "calculate_core_values_float py_sum s =
     do {
       let weekly_service_sales' = py_sum (map sales (stylists s));
       let retail_percentage' = retail_percentage s;
       let weekly_retail_sales' = float_mul weekly_service_sales' (float_div retail_percentage' 100);
       let weekly_total_sales' = float_add weekly_service_sales' weekly_retail_sales';
       let weekly_to_monthly' = float_div 52 12;
       let total_service_sales' = float_mul weekly_service_sales' weekly_to_monthly';
       let retail_sales' = float_mul weekly_retail_sales' weekly_to_monthly';
       let total_additional_income' = py_sum (map snd (additional_income s));
       let monthly_service_retail_sales' = float_mul weekly_total_sales' weekly_to_monthly';
       let total_sales' = float_add monthly_service_retail_sales' total_additional_income';
       let total_fixed_costs' = py_sum (map snd (fixed_costs s));
       let service_commission_pct = service_commission_percentage (salary_settings s);
       let retail_commission_pct = retail_commission_percentage (salary_settings s);
       let national_insurance_pct = national_insurance_percentage (salary_settings s);
       let pension_contribution_pct = pension_contribution_percentage (salary_settings s);
       let retail_sales_weekly = float_div retail_sales' weekly_to_monthly';
       (stylist_weekly_salary_cost, total_weekly_retail_commission) \<leftarrow>
         stylists_loop_float weekly_service_sales' retail_sales_weekly
           service_commission_pct retail_commission_pct (stylists s) (0, 0);
       let trainee_weekly_salary_cost = wages_loop_float (trainees s) 0;
       let receptionist_weekly_salary_cost = wages_loop_float (receptionists s) 0;
       let total_weekly_salary_cost =
         float_add (float_add stylist_weekly_salary_cost trainee_weekly_salary_cost)
           receptionist_weekly_salary_cost;
       let national_insurance_cost =
         float_mul total_weekly_salary_cost (float_div national_insurance_pct 100);
       let pension_contribution_cost =
         float_mul total_weekly_salary_cost (float_div pension_contribution_pct 100);
       let total_additional_costs = float_add national_insurance_cost pension_contribution_cost;
       let grand_total_weekly_cost = float_add total_weekly_salary_cost total_additional_costs;
       let total_salary_cost' = float_mul grand_total_weekly_cost weekly_to_monthly';
       let monthly_retail_commission' = float_mul total_weekly_retail_commission weekly_to_monthly';
       vcp1 \<leftarrow>
         (if total_sales' > 0
          then do {
            q \<leftarrow> float_truediv (float_sub total_salary_cost' monthly_retail_commission') total_sales';
            Some (AList.update wages_key (float_mul q 100) (variable_costs_percentages s))
          }
          else Some (variable_costs_percentages s));
       vcp2 \<leftarrow>
         (if retail_sales' > 0
          then do {
            q \<leftarrow> float_truediv monthly_retail_commission' retail_sales';
            Some (AList.update retail_commission_key (float_mul q 100) vcp1)
          }
          else Some vcp1);
       let (variable_costs', total_variable_costs') =
         variable_costs_loop_float retail_sales' total_service_sales' total_sales' vcp2 ([], 0);
       let profit' = float_sub (float_sub total_sales' total_fixed_costs') total_variable_costs';
       profit_margin' \<leftarrow>
         (if total_sales' > 0
          then do { q \<leftarrow> float_truediv profit' total_sales'; Some (float_mul q 100) }
          else Some 0);
       total_wage_cost_percentage' \<leftarrow>
         (if total_sales' > 0
          then do { q \<leftarrow> float_truediv total_salary_cost' total_sales'; Some (float_mul q 100) }
          else Some 0);
       Some (s\<lparr>variable_costs_percentages := vcp2\<rparr>,
             \<lparr>weekly_service_sales = weekly_service_sales',
              weekly_retail_sales = weekly_retail_sales',
              weekly_total_sales = weekly_total_sales',
              weekly_salary_cost = total_weekly_salary_cost,
              weekly_stylist_salary_cost = stylist_weekly_salary_cost,
              weekly_trainee_salary_cost = trainee_weekly_salary_cost,
              weekly_receptionist_salary_cost = receptionist_weekly_salary_cost,
              weekly_retail_commission = total_weekly_retail_commission,
              weekly_ni_cost = national_insurance_cost,
              weekly_pension_cost = pension_contribution_cost,
              weekly_total_salary_cost = grand_total_weekly_cost,
              total_service_sales = total_service_sales',
              retail_sales = retail_sales',
              monthly_service_retail_sales = monthly_service_retail_sales',
              total_additional_income = total_additional_income',
              total_sales = total_sales',
              total_fixed_costs = total_fixed_costs',
              total_variable_costs = total_variable_costs',
              profit = profit',
              profit_margin = profit_margin',
              variable_costs = variable_costs',
              total_salary_cost = total_salary_cost',
              monthly_retail_commission = monthly_retail_commission',
              total_wage_cost_percentage = total_wage_cost_percentage'\<rparr>)
     }"

section \<open>The profit helper of utils.py\<close>

text \<open>The loop of \<^verbatim>\<open>calculate_profit\<close>; the accumulator is \<^verbatim>\<open>total_variable_costs\<close>.\<close>

fun profit_costs_loop :: "rat \<Rightarrow> rat \<Rightarrow> rat dict \<Rightarrow> rat \<Rightarrow> rat" where
  "profit_costs_loop rs ts [] total_variable_costs' = total_variable_costs'"
| "profit_costs_loop rs ts ((cost_name, percentage) # rest) total_variable_costs' =
     (let base = (if cost_name = ''Retail Commission'' \<or> cost_name = ''Retail Stock'' then rs else ts);
          cost_value = base * (percentage / 100)
      in profit_costs_loop rs ts rest (total_variable_costs' + cost_value))"

definition calculate_profit :: "rat \<Rightarrow> rat \<Rightarrow> rat dict \<Rightarrow> rat dict \<Rightarrow> rat" where
  "calculate_profit service_sales retail_percentage' fixed_costs' variable_costs_percentages' =
     (let retail_sales' = service_sales * (retail_percentage' / 100);
          total_sales' = service_sales + retail_sales';
          total_fixed_costs' = sum_list (map snd fixed_costs');
          total_variable_costs' = profit_costs_loop retail_sales' total_sales' variable_costs_percentages' 0;
          profit' = total_sales' - total_fixed_costs' - total_variable_costs'
      in profit')"

section \<open>The undo stack\<close>

text \<open>
  \<^verbatim>\<open>copy.deepcopy\<close> yields a value that shares nothing with the session state, which is
  what a HOL value is. \<^verbatim>\<open>undo_stack.pop(0)\<close> removes the oldest entry; it runs only when the
  stack has at least ten entries, so it cannot raise.
\<close>

definition current_state :: "session_state \<Rightarrow> undo_entry" where
  "current_state s =
     \<lparr>u_stylists = stylists s,
      u_retail_percentage = retail_percentage s,
      u_fixed_costs = fixed_costs s,
      u_variable_costs_percentages = variable_costs_percentages s,
      u_salary_settings = salary_settings s,
      u_trainees = trainees s,
      u_receptionists = receptionists s\<rparr>"

definition save_state_for_undo :: "session_state \<Rightarrow> session_state" where
  "save_state_for_undo s =
     (let stack = (if length (undo_stack s) \<ge> 10 then tl (undo_stack s) else undo_stack s)
      in s\<lparr>undo_stack := stack @ [current_state s]\<rparr>)"

text \<open>\<^verbatim>\<open>undo_last_change\<close> returns whether there was a state to restore.\<close>

definition undo_last_change :: "session_state \<Rightarrow> session_state \<times> bool" where
  "undo_last_change s =
     (if undo_stack s \<noteq> []
      then (let previous_state = last (undo_stack s)
            in (s\<lparr>undo_stack := butlast (undo_stack s),
                  stylists := u_stylists previous_state,
                  retail_percentage := u_retail_percentage previous_state,
                  fixed_costs := u_fixed_costs previous_state,
                  variable_costs_percentages := u_variable_costs_percentages previous_state,
                  salary_settings := u_salary_settings previous_state,
                  trainees := u_trainees previous_state,
                  receptionists := u_receptionists previous_state\<rparr>, True))
      else (s, False))"

text \<open>
  A run of pushes: the session passes through the input states \<open>ts\<close> in turn (the edits
  the user makes between two pushes), and each of them is pushed.
\<close>

fun push_each :: "session_state \<Rightarrow> session_state list \<Rightarrow> session_state" where
  "push_each s [] = s"
| "push_each s (t # ts) = push_each (save_state_for_undo (t\<lparr>undo_stack := undo_stack s\<rparr>)) ts"

section \<open>Scenarios in the session\<close>

text \<open>
  The handlers of the two buttons of the scenarios tab. The save handler reads the clock
  (\<open>now\<close>) and evaluates \<^verbatim>\<open>calculate_core_values()\<close> once for each of the seven cached
  figures, after the copies of the inputs have been taken. Its call of the database
  (\<^verbatim>\<open>save_scenario\<close>, below) and of \<^verbatim>\<open>save_user_session_data\<close> leave the session state
  as it is and are not part of this function.

  The copies are shallow (\<^verbatim>\<open>list.copy()\<close>, \<^verbatim>\<open>dict.copy()\<close>): the lists of a scenario are
  new, the dictionaries of its stylists, trainees and receptionists are those of the
  session, so that an edit of a stylist in place after the save also changes the scenario
  held. The model stores values, and what it says about a later load it says of the entry
  the session holds when the scenario is loaded.
\<close>

datatype handler_message =
  Scenario_saved
  | Maximum_3_scenarios
  | Please_enter_a_name

definition save_current_plan_as_scenario ::
  "string \<Rightarrow> string \<Rightarrow> string \<Rightarrow> session_state \<Rightarrow> (session_state \<times> handler_message) option" where
  "save_current_plan_as_scenario new_scenario_name scenario_description now s =
     (if new_scenario_name \<noteq> []
      then
        if length (scenarios s) \<ge> 3 \<and> map_of (scenarios s) new_scenario_name = None
        then Some (s, Maximum_3_scenarios)
        else do {
          (s1, v1) \<leftarrow> calculate_core_values s;
          (s2, v2) \<leftarrow> calculate_core_values s1;
          (s3, v3) \<leftarrow> calculate_core_values s2;
          (s4, v4) \<leftarrow> calculate_core_values s3;
          (s5, v5) \<leftarrow> calculate_core_values s4;
          (s6, v6) \<leftarrow> calculate_core_values s5;
          (s7, v7) \<leftarrow> calculate_core_values s6;
          let entry =
            \<lparr>description = scenario_description,
             timestamp = now,
             stylist_data = stylists s,
             sc_retail_percentage = retail_percentage s,
             trainee_data = trainees s,
             receptionist_data = receptionists s,
             sc_salary_settings = salary_settings s,
             sc_fixed_costs = fixed_costs s,
             sc_variable_costs_percentages = variable_costs_percentages s,
             metrics =
               \<lparr>monthly_service_sales = total_service_sales v1,
                monthly_retail_sales = retail_sales v2,
                monthly_total_sales = total_sales v3,
                monthly_fixed_costs = total_fixed_costs v4,
                monthly_variable_costs = total_variable_costs v5,
                monthly_profit = profit v6,
                sc_profit_margin = profit_margin v7\<rparr>\<rparr>;
          Some (s7\<lparr>scenarios := AList.update new_scenario_name entry (scenarios s7),
                   current_scenario_name := new_scenario_name\<rparr>,
                Scenario_saved)
        }
      else Some (s, Please_enter_a_name))"

definition load_selected_scenario :: "string \<Rightarrow> session_state \<Rightarrow> session_state" where
  "load_selected_scenario scenario_to_load s =
     (case map_of (scenarios s) scenario_to_load of
        None \<Rightarrow> s
      | Some scenario_data \<Rightarrow>
          s\<lparr>stylists := stylist_data scenario_data,
            retail_percentage := sc_retail_percentage scenario_data,
            trainees := trainee_data scenario_data,
            receptionists := receptionist_data scenario_data,
            salary_settings := sc_salary_settings scenario_data,
            fixed_costs := sc_fixed_costs scenario_data,
            variable_costs_percentages := sc_variable_costs_percentages scenario_data,
            current_scenario_name := scenario_to_load\<rparr>)"

section \<open>Scenarios in the database\<close>


fun update_first :: "('a \<Rightarrow> bool) \<Rightarrow> ('a \<Rightarrow> 'a) \<Rightarrow> 'a list \<Rightarrow> 'a list" where
  "update_first P f [] = []"
| "update_first P f (x # xs) = (if P x then f x # xs else x # update_first P f xs)"


section \<open>Auxiliary definitions and example inputs\<close>

text \<open>
  The totals of the stylist loop as one value (the loop cannot raise, see
  \<open>stylists_loop_Some\<close> below).
\<close>

definition payroll_totals :: "rat \<Rightarrow> rat \<Rightarrow> rat \<Rightarrow> rat \<Rightarrow> stylist list \<Rightarrow> rat \<times> rat" where
  "payroll_totals wss rsw scp rcp xs = the (stylists_loop wss rsw scp rcp xs (0, 0))"

text \<open>
  A session with one stylist who sells 1000 a week, 20 percent retail, 40 percent service
  commission and 10 percent retail commission, and what \<^const>\<open>calculate_core_values\<close>
  returns for it.
\<close>

definition example_session :: session_state where
  "example_session =
     \<lparr>stylists = [\<lparr>name = ''Stylist 1'', sales = 1000, guarantee = 0\<rparr>],
      retail_percentage = 20,
      fixed_costs = [(''Rent'', 1000), (''Utilities'', 200)],
      variable_costs_percentages =
        [(''Wages/Salaries (excluding retail commission)'', 0),
         (''Retail Commission'', 0),
         (''Professional Stock'', 10),
         (''Retail Stock'', 50),
         (''Royalties/Franchise Fee'', 5)],
      salary_settings =
        \<lparr>service_commission_percentage = 40, retail_commission_percentage = 10,
         national_insurance_percentage = 0, pension_contribution_percentage = 0\<rparr>,
      trainees = [\<lparr>earner_name = ''Trainee 1'', wage = 0\<rparr>],
      receptionists = [\<lparr>earner_name = ''Reception 1'', wage = 0\<rparr>],
      additional_income = [(''Marketing Support'', 0), (''Retro Payments'', 0)],
      undo_stack = [],
      scenarios = [],
      current_scenario_name = ''Current Plan''\<rparr>"

definition example_percentages :: "rat dict" where
  "example_percentages =
     [(''Wages/Salaries (excluding retail commission)'', 100 / 3),
      (''Retail Commission'', 10),
      (''Professional Stock'', 10),
      (''Retail Stock'', 50),
      (''Royalties/Franchise Fee'', 5)]"

definition example_core_values :: core_values where
  "example_core_values =
     \<lparr>weekly_service_sales = 1000, weekly_retail_sales = 200,
      weekly_total_sales = 1200, weekly_salary_cost = 420,
      weekly_stylist_salary_cost = 420, weekly_trainee_salary_cost = 0,
      weekly_receptionist_salary_cost = 0, weekly_retail_commission = 20,
      weekly_ni_cost = 0, weekly_pension_cost = 0,
      weekly_total_salary_cost = 420, total_service_sales = 13000 / 3,
      retail_sales = 2600 / 3, monthly_service_retail_sales = 5200,
      total_additional_income = 0, total_sales = 5200,
      total_fixed_costs = 1200, total_variable_costs = 8840 / 3,
      profit = 3160 / 3, profit_margin = 790 / 39,
      variable_costs =
        [(''Wages/Salaries (excluding retail commission)'', 5200 / 3),
         (''Retail Commission'', 260 / 3),
         (''Professional Stock'', 1300 / 3),
         (''Retail Stock'', 1300 / 3),
         (''Royalties/Franchise Fee'', 260)],
      total_salary_cost = 1820, monthly_retail_commission = 260 / 3,
      total_wage_cost_percentage = 35\<rparr>"


text \<open>
  Eleven states to push, a session whose undo stack is full, a table of scenarios in which
  user 1 has three, and a session that holds three scenarios.
\<close>

definition eleven_edits :: "session_state list" where
  "eleven_edits = map (\<lambda>n. example_session\<lparr>retail_percentage := of_nat n\<rparr>) [1..<12]"

definition full_stack_session :: session_state where
  "full_stack_session = push_each example_session (tl eleven_edits)"




text \<open>
  A session without sales in which the stylist has a guarantee of 300, with additional
  income and without.
\<close>

definition zero_sales_session :: session_state where
  "zero_sales_session =
     example_session
       \<lparr>stylists := [\<lparr>name = ''Stylist 1'', sales = 0, guarantee = 300\<rparr>],
        additional_income := [(''Marketing Support'', 1000), (''Retro Payments'', 0)]\<rparr>"

definition idle_session :: session_state where
  "idle_session =
     example_session\<lparr>stylists := [\<lparr>name = ''Stylist 1'', sales = 0, guarantee = 300\<rparr>]\<rparr>"

text \<open>
  A session with marketing support of 500 a month; the state after a push, a change of the
  retail percentage and a change of the marketing support to 0.
\<close>

definition undo_original :: session_state where
  "undo_original =
     example_session\<lparr>additional_income := [(''Marketing Support'', 500), (''Retro Payments'', 0)]\<rparr>"

definition undo_edited :: session_state where
  "undo_edited =
     (save_state_for_undo undo_original)
       \<lparr>retail_percentage := 30,
        additional_income :=
          AList.update ''Marketing Support'' 0 (additional_income (save_state_for_undo undo_original))\<rparr>"

text \<open>
  The same session saved as the scenario 'Plan A', the entry the save stores, the session
  after the marketing support has been set to 0, and the session after 'Plan A' has been
  loaded again.
\<close>

definition scenario_original :: session_state where
  "scenario_original =
     example_session\<lparr>additional_income := [(''Marketing Support'', 500), (''Retro Payments'', 0)]\<rparr>"

definition plan_a :: scenario where
  "plan_a =
     \<lparr>description = ''with marketing support'', timestamp = ''2025-01-06 09:00'',
      stylist_data = [\<lparr>name = ''Stylist 1'', sales = 1000, guarantee = 0\<rparr>],
      sc_retail_percentage = 20,
      trainee_data = [\<lparr>earner_name = ''Trainee 1'', wage = 0\<rparr>],
      receptionist_data = [\<lparr>earner_name = ''Reception 1'', wage = 0\<rparr>],
      sc_salary_settings =
        \<lparr>service_commission_percentage = 40, retail_commission_percentage = 10,
         national_insurance_percentage = 0, pension_contribution_percentage = 0\<rparr>,
      sc_fixed_costs = [(''Rent'', 1000), (''Utilities'', 200)],
      sc_variable_costs_percentages =
        [(''Wages/Salaries (excluding retail commission)'', 0),
         (''Retail Commission'', 0),
         (''Professional Stock'', 10),
         (''Retail Stock'', 50),
         (''Royalties/Franchise Fee'', 5)],
      metrics =
        \<lparr>monthly_service_sales = 13000 / 3, monthly_retail_sales = 2600 / 3,
         monthly_total_sales = 5700, monthly_fixed_costs = 1200,
         monthly_variable_costs = 8915 / 3, monthly_profit = 4585 / 3,
         sc_profit_margin = 4585 / 171\<rparr>\<rparr>"

definition scenario_saved :: session_state where
  "scenario_saved =
     fst (the (save_current_plan_as_scenario ''Plan A'' ''with marketing support''
                 ''2025-01-06 09:00'' scenario_original))"

definition scenario_edited :: session_state where
  "scenario_edited =
     scenario_saved\<lparr>additional_income :=
       AList.update ''Marketing Support'' 0 (additional_income scenario_saved)\<rparr>"

definition scenario_restored :: session_state where
  "scenario_restored = load_selected_scenario ''Plan A'' scenario_edited"

text \<open>
  The example session once its two derived percentages have been computed:
  \<^const>\<open>calculate_core_values\<close> leaves it as it is.
\<close>

definition settled_session :: session_state where
  "settled_session = example_session\<lparr>variable_costs_percentages := example_percentages\<rparr>"

section \<open>Properties of the loops\<close>

lemma option_case_exI:
  "(case x of None \<Rightarrow> False | Some (a, b) \<Rightarrow> P a b) \<Longrightarrow> \<exists>a b. x = Some (a, b) \<and> P a b"
  by (cases x) auto

lemma stylist_earnings_Some:
  "stylist_earnings wss rsw scp rcp st =
     Some \<lparr>service_commission_amount = sales st * (scp / 100),
           stylist_retail_sales_weekly = (if wss > 0 then rsw * (sales st / wss) else 0),
           retail_commission_amount = (if wss > 0 then rsw * (sales st / wss) else 0) * (rcp / 100),
           service_earnings = max (guarantee st) (sales st * (scp / 100)),
           total_earnings = max (guarantee st) (sales st * (scp / 100))
                            + (if wss > 0 then rsw * (sales st / wss) else 0) * (rcp / 100)\<rparr>"
  by (simp add: stylist_earnings_def truediv_def Let_def)

lemma stylists_loop_Some:
  "stylists_loop wss rsw scp rcp xs (c, r) =
     Some (c + sum_list (map (\<lambda>st. total_earnings (the (stylist_earnings wss rsw scp rcp st))) xs),
           r + sum_list (map (\<lambda>st. retail_commission_amount (the (stylist_earnings wss rsw scp rcp st))) xs))"
proof (induction xs arbitrary: c r)
  case Nil
  then show ?case by simp
next
  case (Cons st xs)
  obtain p where p: "stylist_earnings wss rsw scp rcp st = Some p"
    by (simp add: stylist_earnings_Some)
  show ?case by (simp add: p Cons.IH add.assoc)
qed

lemma stylists_loop_payroll_totals:
  "stylists_loop wss rsw scp rcp xs (0, 0) = Some (payroll_totals wss rsw scp rcp xs)"
  by (simp add: payroll_totals_def stylists_loop_Some)

lemma wages_loop_sum: "wages_loop xs acc = acc + sum_list (map wage xs)"
  by (induction xs arbitrary: acc) (simp_all add: add.assoc)

lemma filter_update_other:
  "[kv \<leftarrow> AList.update k v al. fst kv \<noteq> k \<and> P kv] = [kv \<leftarrow> al. fst kv \<noteq> k \<and> P kv]"
  by (induction al) auto

section \<open>The engine returns, and what it leaves alone\<close>

lemma calculate_core_values_frame_case:
  "(case calculate_core_values s of None \<Rightarrow> False
    | Some (s', m) \<Rightarrow>
        s' = s\<lparr>variable_costs_percentages := variable_costs_percentages s'\<rparr>
      \<and> [kv \<leftarrow> variable_costs_percentages s'. fst kv \<noteq> wages_key \<and> fst kv \<noteq> retail_commission_key]
        = [kv \<leftarrow> variable_costs_percentages s. fst kv \<noteq> wages_key \<and> fst kv \<noteq> retail_commission_key])"
proof -
  have a: "[kv \<leftarrow> AList.update wages_key v al. fst kv \<noteq> wages_key \<and> fst kv \<noteq> retail_commission_key]
         = [kv \<leftarrow> al. fst kv \<noteq> wages_key \<and> fst kv \<noteq> retail_commission_key]" for v and al :: "rat dict"
    by (rule filter_update_other)
  have b: "[kv \<leftarrow> AList.update retail_commission_key v al. fst kv \<noteq> wages_key \<and> fst kv \<noteq> retail_commission_key]
         = [kv \<leftarrow> al. fst kv \<noteq> wages_key \<and> fst kv \<noteq> retail_commission_key]" for v and al :: "rat dict"
    using filter_update_other [where k = retail_commission_key and v = v and al = al
        and P = "\<lambda>kv. fst kv \<noteq> wages_key"]
    by (simp add: conj_commute)
  show ?thesis
    by (simp add: calculate_core_values_def Let_def stylists_loop_payroll_totals truediv_def
        case_prod_beta a b)
qed






text \<open>
  C4. \<^verbatim>\<open>calculate_core_values\<close> changes nothing in the session state but the entries
  'Wages/Salaries (excluding retail commission)' and 'Retail Commission' of
  \<^verbatim>\<open>variable_costs_percentages\<close>: stylists, trainees, receptionists, retail percentage, fixed
  costs, salary settings and additional income are as before, and so are the three
  percentages the user edits, and every other entry of the dictionary, in its place.
\<close>

theorem compute_frame:
  "\<exists>s' m. calculate_core_values s = Some (s', m)
     \<and> stylists s' = stylists s
     \<and> trainees s' = trainees s
     \<and> receptionists s' = receptionists s
     \<and> retail_percentage s' = retail_percentage s
     \<and> fixed_costs s' = fixed_costs s
     \<and> salary_settings s' = salary_settings s
     \<and> additional_income s' = additional_income s
     \<and> undo_stack s' = undo_stack s
     \<and> scenarios s' = scenarios s
     \<and> current_scenario_name s' = current_scenario_name s
     \<and> map_of (variable_costs_percentages s') ''Professional Stock''
         = map_of (variable_costs_percentages s) ''Professional Stock''
     \<and> map_of (variable_costs_percentages s') ''Retail Stock''
         = map_of (variable_costs_percentages s) ''Retail Stock''
     \<and> map_of (variable_costs_percentages s') ''Royalties/Franchise Fee''
         = map_of (variable_costs_percentages s) ''Royalties/Franchise Fee''
     \<and> [kv \<leftarrow> variable_costs_percentages s'. fst kv \<noteq> wages_key \<and> fst kv \<noteq> retail_commission_key]
       = [kv \<leftarrow> variable_costs_percentages s. fst kv \<noteq> wages_key \<and> fst kv \<noteq> retail_commission_key]"
proof -
  obtain s' m where run: "calculate_core_values s = Some (s', m)"
    and upd: "s' = s\<lparr>variable_costs_percentages := variable_costs_percentages s'\<rparr>"
    and rest: "[kv \<leftarrow> variable_costs_percentages s'. fst kv \<noteq> wages_key \<and> fst kv \<noteq> retail_commission_key]
       = [kv \<leftarrow> variable_costs_percentages s. fst kv \<noteq> wages_key \<and> fst kv \<noteq> retail_commission_key]"
    using option_case_exI [OF calculate_core_values_frame_case [of s]] by blast
  have other: "map_of (variable_costs_percentages s') k = map_of (variable_costs_percentages s) k"
    if "k \<noteq> wages_key" "k \<noteq> retail_commission_key" for k
  proof -
    have "map_of [kv \<leftarrow> al. fst kv \<noteq> wages_key \<and> fst kv \<noteq> retail_commission_key] k = map_of al k"
      for al :: "rat dict"
      using that by (induction al) auto
    from this [of "variable_costs_percentages s'"] this [of "variable_costs_percentages s"] rest
    show ?thesis by simp
  qed
  have fields: "stylists s' = stylists s" "trainees s' = trainees s"
    "receptionists s' = receptionists s" "retail_percentage s' = retail_percentage s"
    "fixed_costs s' = fixed_costs s" "salary_settings s' = salary_settings s"
    "additional_income s' = additional_income s" "undo_stack s' = undo_stack s"
    "scenarios s' = scenarios s" "current_scenario_name s' = current_scenario_name s"
    by (subst upd, simp)+
  have ps: "map_of (variable_costs_percentages s') ''Professional Stock''
         = map_of (variable_costs_percentages s) ''Professional Stock''"
    by (rule other) (simp_all add: wages_key_def retail_commission_key_def)
  have rs: "map_of (variable_costs_percentages s') ''Retail Stock''
         = map_of (variable_costs_percentages s) ''Retail Stock''"
    by (rule other) (simp_all add: wages_key_def retail_commission_key_def)
  have rf: "map_of (variable_costs_percentages s') ''Royalties/Franchise Fee''
         = map_of (variable_costs_percentages s) ''Royalties/Franchise Fee''"
    by (rule other) (simp_all add: wages_key_def retail_commission_key_def)
  from run fields ps rs rf rest show ?thesis by blast
qed

section \<open>Variable costs\<close>

lemma variable_costs_loop_total:
  "snd (variable_costs_loop rs tss ts xs (vc, t)) =
     t + sum_list (map (\<lambda>(k, p). base_value rs tss ts k * (p / 100)) xs)"
  by (induction xs arbitrary: vc t) (auto simp: Let_def add.assoc)







section \<open>The worked example\<close>

lemma sum_list_all_zero: "\<forall>x\<in>set xs. f x = (0::rat) \<Longrightarrow> sum_list (map f xs) = 0"
  by (induction xs) simp_all

text \<open>
  In exact arithmetic the figures of the example are round: with one stylist who sells 1000
  a week at no guarantee, 20 percent retail, 40 percent service commission and 10 percent
  retail commission, and nothing else paid or earned, the weekly salary cost is 420, the
  monthly salary cost 420 * 52/12 = 1820 and total monthly sales are 5200.
\<close>

lemma worked_example_rational:
  assumes "stylists s = [st]" and "sales st = 1000" and "guarantee st = 0"
    and "retail_percentage s = 20"
    and "service_commission_percentage (salary_settings s) = 40"
    and "retail_commission_percentage (salary_settings s) = 10"
    and "national_insurance_percentage (salary_settings s) = 0"
    and "pension_contribution_percentage (salary_settings s) = 0"
    and "\<forall>t\<in>set (trainees s). wage t = 0"
    and "\<forall>r\<in>set (receptionists s). wage r = 0"
    and "\<forall>x\<in>set (additional_income s). snd x = 0"
  shows "\<exists>s' m p. calculate_core_values s = Some (s', m)
    \<and> stylist_earnings (weekly_service_sales m) (retail_sales m / weekly_to_monthly) 40 10 st = Some p
    \<and> weekly_retail_sales m = 200
    \<and> stylist_retail_sales_weekly p = 200
    \<and> service_commission_amount p = 400
    \<and> service_earnings p = 400
    \<and> retail_commission_amount p = 20
    \<and> total_earnings p = 420
    \<and> weekly_stylist_salary_cost m = 420
    \<and> weekly_salary_cost m = 420
    \<and> weekly_total_salary_cost m = 420
    \<and> weekly_to_monthly = 52 / 12
    \<and> total_salary_cost m = 420 * (52 / 12)
    \<and> total_salary_cost m = 1820
    \<and> total_service_sales m = 1000 * (52 / 12)
    \<and> retail_sales m = 200 * (52 / 12)
    \<and> monthly_retail_commission m = 20 * (52 / 12)
    \<and> total_sales m = (1000 + 200) * (52 / 12)
    \<and> total_sales m = 5200
    \<and> profit m = 5200 - total_fixed_costs m - total_variable_costs m"
proof -
  have tr: "wages_loop (trainees s) 0 = 0"
    using assms(9) by (simp add: wages_loop_sum sum_list_all_zero)
  have re: "wages_loop (receptionists s) 0 = 0"
    using assms(10) by (simp add: wages_loop_sum sum_list_all_zero)
  have ai: "sum_list (map snd (additional_income s)) = 0"
    using assms(11) by (simp add: sum_list_all_zero)
  have "case calculate_core_values s of None \<Rightarrow> False
    | Some (s', m) \<Rightarrow> (\<exists>p.
      stylist_earnings (weekly_service_sales m) (retail_sales m / weekly_to_monthly) 40 10 st = Some p
    \<and> weekly_retail_sales m = 200
    \<and> stylist_retail_sales_weekly p = 200
    \<and> service_commission_amount p = 400
    \<and> service_earnings p = 400
    \<and> retail_commission_amount p = 20
    \<and> total_earnings p = 420
    \<and> weekly_stylist_salary_cost m = 420
    \<and> weekly_salary_cost m = 420
    \<and> weekly_total_salary_cost m = 420
    \<and> weekly_to_monthly = 52 / 12
    \<and> total_salary_cost m = 420 * (52 / 12)
    \<and> total_salary_cost m = 1820
    \<and> total_service_sales m = 1000 * (52 / 12)
    \<and> retail_sales m = 200 * (52 / 12)
    \<and> monthly_retail_commission m = 20 * (52 / 12)
    \<and> total_sales m = (1000 + 200) * (52 / 12)
    \<and> total_sales m = 5200
    \<and> profit m = 5200 - total_fixed_costs m - total_variable_costs m)"
    by (simp add: calculate_core_values_def Let_def assms(1-8) tr re ai stylist_earnings_def
        truediv_def weekly_to_monthly_def case_prod_beta)
  from option_case_exI [OF this] show ?thesis
    by blast
qed

section \<open>Rounding to a double\<close>

text \<open>
  \<open>round_to_double\<close> is evaluated by naming the exponent and the integer: \<open>x\<close> rounds to
  \<open>n * 2 ^ e\<close> when \<open>x / 2 ^ e\<close> lies in the range of a 53-bit significand and within a half
  of \<open>n\<close>.
\<close>

lemma double_exponent_unique:
  fixes a :: rat
  assumes "2 ^ 52 \<le> a / 2 powi e" "a / 2 powi e < 2 ^ 53"
    and "2 ^ 52 \<le> a / 2 powi e'" "a / 2 powi e' < 2 ^ 53"
  shows "e = e'"
proof -
  have less: False if "d < d'"
    and lo: "2 ^ 52 \<le> a / 2 powi d'" and hi: "a / 2 powi d < 2 ^ 53" for d d' :: int
  proof -
    have pos: "(0::rat) < 2 powi d" "(0::rat) < 2 powi d'" by simp_all
    from that(1) have "d + 1 \<le> d'" by simp
    then have "(2::rat) powi (d + 1) \<le> 2 powi d'"
      by (intro power_int_increasing) simp_all
    then have step: "2 * (2::rat) powi d \<le> 2 powi d'"
      by (simp add: power_int_add)
    from hi pos have "a < 2 ^ 53 * 2 powi d"
      by (simp add: pos_divide_less_eq)
    also have "\<dots> = 2 ^ 52 * (2 * 2 powi d)" by simp
    also have "\<dots> \<le> 2 ^ 52 * 2 powi d'"
      using step by (intro mult_left_mono) simp_all
    also have "\<dots> \<le> a"
      using lo pos by (simp add: pos_le_divide_eq)
    finally show False by simp
  qed
  show ?thesis
    using less [of e e'] less [of e' e] assms by (cases e e' rule: linorder_cases) auto
qed

lemma double_exponent_eqI:
  assumes "- 1074 \<le> e" "e \<le> 971" "2 ^ 52 \<le> a / 2 powi e" "a / 2 powi e < 2 ^ 53"
  shows "double_exponent a = e"
proof -
  let ?P = "\<lambda>e. 2 ^ 52 \<le> a / 2 powi e \<and> a / 2 powi e < 2 ^ 53"
  let ?es = "[- 1074 .. 971] :: int list"
  from assms have mem: "e \<in> set ?es"
    by (simp only: set_upto atLeastAtMost_iff simp_thms)
  from assms have P: "?P e" by (simp only: simp_thms)
  have "find ?P ?es \<noteq> None"
    unfolding find_None_iff using mem P by blast
  then obtain e' where f: "find ?P ?es = Some e'" by blast
  then have "?P e'"
    unfolding find_Some_iff by blast
  with assms have "e' = e"
    by (intro double_exponent_unique [of a e' e]) (simp_all only: simp_thms)
  with f show ?thesis
    unfolding double_exponent_def by (simp only: option.case)
qed

lemma round_half_even_near:
  assumes "\<bar>q - of_int n\<bar> < 1 / 2"
  shows "round_half_even q = n"
proof -
  from assms have lo: "of_int n - 1 / 2 < q" and hi: "q < of_int n + 1 / 2"
    unfolding abs_less_iff by linarith+
  show ?thesis
  proof (cases "of_int n \<le> q")
    case True
    with hi have "\<lfloor>q\<rfloor> = n" by (intro floor_unique) simp_all
    with hi show ?thesis by (simp add: round_half_even_def Let_def)
  next
    case False
    with lo have "\<lfloor>q\<rfloor> = n - 1" by (intro floor_unique) simp_all
    with lo False show ?thesis by (simp add: round_half_even_def Let_def)
  qed
qed

lemma round_to_double_eqI:
  assumes "0 < x" "- 1074 \<le> e" "e \<le> 971" "2 ^ 52 \<le> x / 2 powi e" "x / 2 powi e < 2 ^ 53"
    and "\<bar>x / 2 powi e - of_int n\<bar> < 1 / 2"
    and "y = of_int n * 2 powi e"
  shows "round_to_double x = y"
  using assms double_exponent_eqI [of e x] round_half_even_near [of "x / 2 powi e" n]
  by (simp add: round_to_double_def)

section \<open>The worked example in double precision\<close>

text \<open>
  The operations that the engine carries out on the example, each with its result. The
  factor \<^verbatim>\<open>52/12\<close> is the double \<open>4878899596318037 / 2 ^ 50\<close>, a little below \<open>13/3\<close>.
\<close>

lemma float_52_12: "float_div 52 12 = 4878899596318037 / 2 ^ 50"
  unfolding float_div_def
  by (rule round_to_double_eqI [where e = "- 50" and n = 4878899596318037]) simp_all

lemma float_20_100: "float_div 20 100 = 3602879701896397 / 2 ^ 54"
  unfolding float_div_def
  by (rule round_to_double_eqI [where e = "- 55" and n = 7205759403792794]) simp_all

lemma float_40_100: "float_div 40 100 = 3602879701896397 / 2 ^ 53"
  unfolding float_div_def
  by (rule round_to_double_eqI [where e = "- 54" and n = 7205759403792794]) simp_all

lemma float_10_100: "float_div 10 100 = 3602879701896397 / 2 ^ 55"
  unfolding float_div_def
  by (rule round_to_double_eqI [where e = "- 56" and n = 7205759403792794]) simp_all

lemma float_0_100: "float_div 0 100 = 0"
  by (simp add: float_div_def round_to_double_def)

lemma float_weekly_retail_sales: "float_mul 1000 (float_div 20 100) = 200"
  apply (simp only: float_20_100)
  unfolding float_mul_def
  by (rule round_to_double_eqI [where e = "- 45" and n = 7036874417766400]) simp_all

lemma float_weekly_total_sales: "float_add 1000 200 = 1200"
  unfolding float_add_def
  by (rule round_to_double_eqI [where e = "- 42" and n = 5277655813324800]) simp_all

lemma float_total_service_sales: "float_mul 1000 (float_div 52 12) = 4764550387029333 / 2 ^ 40"
  apply (simp only: float_52_12)
  unfolding float_mul_def
  by (rule round_to_double_eqI [where e = "- 40" and n = 4764550387029333]) simp_all

lemma float_retail_sales: "float_mul 200 (float_div 52 12) = 7623280619246933 / 2 ^ 43"
  apply (simp only: float_52_12)
  unfolding float_mul_def
  by (rule round_to_double_eqI [where e = "- 43" and n = 7623280619246933]) simp_all

lemma float_monthly_sales: "float_mul 1200 (float_div 52 12) = 5200"
  apply (simp only: float_52_12)
  unfolding float_mul_def
  by (rule round_to_double_eqI [where e = "- 40" and n = 5717460464435200]) simp_all

lemma float_total_sales: "float_add 5200 0 = 5200"
  unfolding float_add_def
  by (rule round_to_double_eqI [where e = "- 40" and n = 5717460464435200]) simp_all

lemma float_retail_sales_weekly: "float_div (float_mul 200 (float_div 52 12)) (float_div 52 12) = 200"
  apply (simp only: float_retail_sales)
  apply (simp only: float_52_12)
  unfolding float_div_def
  by (rule round_to_double_eqI [where e = "- 45" and n = 7036874417766400]) simp_all

lemma float_service_commission: "float_mul 1000 (float_div 40 100) = 400"
  apply (simp only: float_40_100)
  unfolding float_mul_def
  by (rule round_to_double_eqI [where e = "- 44" and n = 7036874417766400]) simp_all

lemma float_proportion: "float_div 1000 1000 = 1"
  unfolding float_div_def
  by (rule round_to_double_eqI [where e = "- 52" and n = 4503599627370496]) simp_all

lemma float_retail_share: "float_mul 200 1 = 200"
  unfolding float_mul_def
  by (rule round_to_double_eqI [where e = "- 45" and n = 7036874417766400]) simp_all

lemma float_retail_commission: "float_mul 200 (float_div 10 100) = 20"
  apply (simp only: float_10_100)
  unfolding float_mul_def
  by (rule round_to_double_eqI [where e = "- 48" and n = 5629499534213120]) simp_all

lemma float_total_earnings: "float_add 400 20 = 420"
  unfolding float_add_def
  by (rule round_to_double_eqI [where e = "- 44" and n = 7388718138654720]) simp_all

lemma float_0_plus_1000: "float_add 0 1000 = 1000"
  unfolding float_add_def
  by (rule round_to_double_eqI [where e = "- 43" and n = 8796093022208000]) simp_all

lemma float_0_plus_420: "float_add 0 420 = 420"
  unfolding float_add_def
  by (rule round_to_double_eqI [where e = "- 44" and n = 7388718138654720]) simp_all

lemma float_0_plus_20: "float_add 0 20 = 20"
  unfolding float_add_def
  by (rule round_to_double_eqI [where e = "- 48" and n = 5629499534213120]) simp_all

lemma float_420_plus_0: "float_add 420 0 = 420"
  unfolding float_add_def
  by (rule round_to_double_eqI [where e = "- 44" and n = 7388718138654720]) simp_all

lemma float_420_times_0: "float_mul 420 0 = 0"
  by (simp add: float_mul_def round_to_double_def)

lemma float_0_plus_0: "float_add 0 0 = 0"
  by (simp add: float_add_def round_to_double_def)

lemma float_total_salary_cost: "float_mul 420 (float_div 52 12) = 8004444650209279 / 2 ^ 42"
  apply (simp only: float_52_12)
  unfolding float_mul_def
  by (rule round_to_double_eqI [where e = "- 42" and n = 8004444650209279]) simp_all

lemma float_monthly_retail_commission: "float_mul 20 (float_div 52 12) = 3049312247698773 / 2 ^ 45"
  apply (simp only: float_52_12)
  unfolding float_mul_def
  by (rule round_to_double_eqI [where e = "- 46" and n = 6098624495397546]) simp_all

lemma float_wages_difference: "float_sub (float_mul 420 (float_div 52 12)) (float_mul 20 (float_div 52 12)) = 1905820154811733 / 2 ^ 40"
  apply (simp only: float_total_salary_cost)
  apply (simp only: float_monthly_retail_commission)
  unfolding float_sub_def
  by (rule round_to_double_eqI [where e = "- 42" and n = 7623280619246932]) simp_all

lemma float_wages_quotient: "float_div (float_sub (float_mul 420 (float_div 52 12)) (float_mul 20 (float_div 52 12))) 5200 = 1501199875790165 / 2 ^ 52"
  apply (simp only: float_wages_difference)
  unfolding float_div_def
  by (rule round_to_double_eqI [where e = "- 54" and n = 6004799503160660]) simp_all

lemma float_wages_percentage: "float_mul (float_div (float_sub (float_mul 420 (float_div 52 12)) (float_mul 20 (float_div 52 12))) 5200) 100 = 2345624805922133 / 2 ^ 46"
  apply (simp only: float_wages_quotient)
  unfolding float_mul_def
  by (rule round_to_double_eqI [where e = "- 47" and n = 4691249611844266]) simp_all

lemma float_commission_quotient: "float_div (float_mul 20 (float_div 52 12)) (float_mul 200 (float_div 52 12)) = 7205759403792793 / 2 ^ 56"
  apply (simp only: float_retail_sales)
  apply (simp only: float_monthly_retail_commission)
  unfolding float_div_def
  by (rule round_to_double_eqI [where e = "- 56" and n = 7205759403792793]) simp_all

lemma float_commission_percentage: "float_mul (float_div (float_mul 20 (float_div 52 12)) (float_mul 200 (float_div 52 12))) 100 = 10"
  apply (simp only: float_commission_quotient)
  unfolding float_mul_def
  by (rule round_to_double_eqI [where e = "- 49" and n = 5629499534213120]) simp_all

lemma float_retail_sales_pos: "0 < float_mul 200 (float_div 52 12)"
  by (simp only: float_retail_sales) simp

lemma float_retail_sales_nonzero: "float_mul 200 (float_div 52 12) \<noteq> 0"
  using float_retail_sales_pos by simp

lemma wages_loop_float_zeros:
  "\<forall>e\<in>set xs. wage e = 0 \<Longrightarrow> wages_loop_float xs 0 = 0"
  by (induction xs) (simp_all add: float_0_plus_0)

lemma float_sum_zeros:
  "\<forall>x\<in>set xs. x = 0 \<Longrightarrow> float_sum xs = 0"
  unfolding float_sum_def by (induction xs) (simp_all add: float_0_plus_0)

lemmas float_example_facts =
  float_0_100 float_weekly_retail_sales float_weekly_total_sales float_monthly_sales
  float_total_sales float_retail_sales_weekly float_service_commission float_proportion
  float_retail_share float_retail_commission float_total_earnings float_0_plus_420
  float_0_plus_20 float_420_plus_0 float_420_times_0 float_0_plus_0
  float_retail_sales_pos float_retail_sales_nonzero

lemma worked_example_float_case:
  assumes "stylists s = [st]" and "sales st = 1000" and "guarantee st = 0"
    and "retail_percentage s = 20"
    and "service_commission_percentage (salary_settings s) = 40"
    and "retail_commission_percentage (salary_settings s) = 10"
    and "national_insurance_percentage (salary_settings s) = 0"
    and "pension_contribution_percentage (salary_settings s) = 0"
    and "\<forall>t\<in>set (trainees s). wage t = 0"
    and "\<forall>r\<in>set (receptionists s). wage r = 0"
    and "py_sum [1000] = 1000"
    and "py_sum (map snd (additional_income s)) = 0"
  shows "case calculate_core_values_float py_sum s of None \<Rightarrow> False
    | Some (s', m) \<Rightarrow> (\<exists>p.
      stylist_earnings_float (weekly_service_sales m)
        (float_div (retail_sales m) (float_div 52 12)) 40 10 st = Some p
    \<and> weekly_service_sales m = 1000
    \<and> weekly_retail_sales m = 200
    \<and> stylist_retail_sales_weekly p = 200
    \<and> service_commission_amount p = 400
    \<and> service_earnings p = 400
    \<and> retail_commission_amount p = 20
    \<and> total_earnings p = 420
    \<and> weekly_stylist_salary_cost m = 420
    \<and> weekly_salary_cost m = 420
    \<and> weekly_total_salary_cost m = 420
    \<and> total_salary_cost m = float_mul 420 (float_div 52 12)
    \<and> total_service_sales m = float_mul 1000 (float_div 52 12)
    \<and> retail_sales m = float_mul 200 (float_div 52 12)
    \<and> monthly_retail_commission m = float_mul 20 (float_div 52 12)
    \<and> total_sales m = 5200
    \<and> total_fixed_costs m = py_sum (map snd (fixed_costs s))
    \<and> variable_costs_percentages s' =
        AList.update retail_commission_key
          (float_mul (float_div (float_mul 20 (float_div 52 12)) (float_mul 200 (float_div 52 12))) 100)
          (AList.update wages_key
            (float_mul (float_div (float_sub (float_mul 420 (float_div 52 12))
                                             (float_mul 20 (float_div 52 12))) 5200) 100)
            (variable_costs_percentages s))
    \<and> (variable_costs m, total_variable_costs m) =
        variable_costs_loop_float (retail_sales m) (total_service_sales m) (total_sales m)
          (variable_costs_percentages s') ([], 0)
    \<and> profit m = float_sub (float_sub 5200 (total_fixed_costs m)) (total_variable_costs m))"
proof -
  have tr: "wages_loop_float (trainees s) 0 = 0"
    using assms(9) by (rule wages_loop_float_zeros)
  have re: "wages_loop_float (receptionists s) 0 = 0"
    using assms(10) by (rule wages_loop_float_zeros)
  show ?thesis
    by (simp add: calculate_core_values_float_def Let_def assms(1-8) assms(11,12) tr re
        stylist_earnings_float_def float_truediv_def case_prod_beta float_example_facts)
qed

text \<open>
  C2 as stated does not hold. The factor from weeks to months is the double nearest to
  52/12, not the rational, and the product of 420 and that double rounds to
  \<open>1820 - 2 ^ - 42\<close>, which Python prints as 1819.9999999999998: the monthly salary cost of
  the example is not 1820.
\<close>

theorem worked_example_counterexample:
  "map_option (total_salary_cost \<circ> snd) (calculate_core_values_float float_sum example_session)
     = Some (1820 - 1 / 2 ^ 42)
   \<and> map_option (total_salary_cost \<circ> snd) (calculate_core_values_float float_sum example_session)
     \<noteq> Some 1820
   \<and> float_div 52 12 = 4878899596318037 / 2 ^ 50
   \<and> float_div 52 12 \<noteq> 52 / 12"
proof -
  have "case calculate_core_values_float float_sum example_session of None \<Rightarrow> False
    | Some (s', m) \<Rightarrow> total_salary_cost m = float_mul 420 (float_div 52 12)"
    by (simp add: calculate_core_values_float_def Let_def example_session_def float_sum_def
        stylist_earnings_float_def float_truediv_def case_prod_beta float_example_facts
        float_0_plus_1000)
  from option_case_exI [OF this] obtain s' m
    where run: "calculate_core_values_float float_sum example_session = Some (s', m)"
      and tsc: "total_salary_cost m = float_mul 420 (float_div 52 12)"
    by blast
  have tsc': "total_salary_cost m = 8004444650209279 / 2 ^ 42"
    unfolding tsc by (rule float_total_salary_cost)
  show ?thesis
    by (simp add: run tsc' float_52_12)
qed

text \<open>
  C2, amended. One stylist with weekly sales 1000 and no guarantee, 20 percent retail, 40
  percent service commission, 10 percent retail commission, no national insurance, no
  pension, no wages for trainees and receptionists and no additional income (the builtin
  \<^verbatim>\<open>sum\<close> returning 1000 for the one stylist and 0 for the additional income): weekly
  retail sales are 200, the stylist's retail share 200, service commission 400, service
  earnings 400, retail commission 20, total earnings 420 and the weekly salary cost 420, all
  exactly. The factor from weeks to months is the double nearest to 52/12; the monthly
  salary cost is the double nearest to 420 times that factor, \<open>1820 - 2 ^ - 42\<close>, and total
  monthly sales are exactly 5200. Total fixed costs are the sum of the session's fixed
  costs; the two derived percentages are written into the session (10 and the double
  33.33333333333333), the variable costs are those of the loop over the updated dictionary,
  and the profit is 5200 less the fixed costs less the variable costs, each subtraction
  rounded.
\<close>

theorem worked_example:
  assumes "stylists s = [st]" and "sales st = 1000" and "guarantee st = 0"
    and "retail_percentage s = 20"
    and "service_commission_percentage (salary_settings s) = 40"
    and "retail_commission_percentage (salary_settings s) = 10"
    and "national_insurance_percentage (salary_settings s) = 0"
    and "pension_contribution_percentage (salary_settings s) = 0"
    and "\<forall>t\<in>set (trainees s). wage t = 0"
    and "\<forall>r\<in>set (receptionists s). wage r = 0"
    and "py_sum [1000] = 1000"
    and "py_sum (map snd (additional_income s)) = 0"
  shows "\<exists>s' m p. calculate_core_values_float py_sum s = Some (s', m)
    \<and> stylist_earnings_float (weekly_service_sales m)
        (float_div (retail_sales m) (float_div 52 12)) 40 10 st = Some p
    \<and> weekly_service_sales m = 1000
    \<and> weekly_retail_sales m = 200
    \<and> stylist_retail_sales_weekly p = 200
    \<and> service_commission_amount p = 400
    \<and> service_earnings p = 400
    \<and> retail_commission_amount p = 20
    \<and> total_earnings p = 420
    \<and> weekly_stylist_salary_cost m = 420
    \<and> weekly_salary_cost m = 420
    \<and> weekly_total_salary_cost m = 420
    \<and> float_div 52 12 = 4878899596318037 / 2 ^ 50
    \<and> total_salary_cost m = float_mul 420 (float_div 52 12)
    \<and> total_salary_cost m = 1820 - 1 / 2 ^ 42
    \<and> total_service_sales m = float_mul 1000 (float_div 52 12)
    \<and> total_service_sales m = 4764550387029333 / 2 ^ 40
    \<and> retail_sales m = float_mul 200 (float_div 52 12)
    \<and> retail_sales m = 7623280619246933 / 2 ^ 43
    \<and> monthly_retail_commission m = float_mul 20 (float_div 52 12)
    \<and> monthly_retail_commission m = 3049312247698773 / 2 ^ 45
    \<and> total_sales m = 5200
    \<and> total_fixed_costs m = py_sum (map snd (fixed_costs s))
    \<and> variable_costs_percentages s' =
        AList.update retail_commission_key 10
          (AList.update wages_key (2345624805922133 / 2 ^ 46) (variable_costs_percentages s))
    \<and> (variable_costs m, total_variable_costs m) =
        variable_costs_loop_float (retail_sales m) (total_service_sales m) (total_sales m)
          (variable_costs_percentages s') ([], 0)
    \<and> profit m = float_sub (float_sub 5200 (total_fixed_costs m)) (total_variable_costs m)"
proof -
  obtain s' m p where run: "calculate_core_values_float py_sum s = Some (s', m)"
    and p: "stylist_earnings_float (weekly_service_sales m)
        (float_div (retail_sales m) (float_div 52 12)) 40 10 st = Some p"
    and weekly: "weekly_service_sales m = 1000" "weekly_retail_sales m = 200"
      "stylist_retail_sales_weekly p = 200" "service_commission_amount p = 400"
      "service_earnings p = 400" "retail_commission_amount p = 20" "total_earnings p = 420"
      "weekly_stylist_salary_cost m = 420" "weekly_salary_cost m = 420"
      "weekly_total_salary_cost m = 420"
    and tsc: "total_salary_cost m = float_mul 420 (float_div 52 12)"
    and tss: "total_service_sales m = float_mul 1000 (float_div 52 12)"
    and rs: "retail_sales m = float_mul 200 (float_div 52 12)"
    and mrc: "monthly_retail_commission m = float_mul 20 (float_div 52 12)"
    and ts: "total_sales m = 5200"
    and tfc: "total_fixed_costs m = py_sum (map snd (fixed_costs s))"
    and vcp: "variable_costs_percentages s' =
        AList.update retail_commission_key
          (float_mul (float_div (float_mul 20 (float_div 52 12)) (float_mul 200 (float_div 52 12))) 100)
          (AList.update wages_key
            (float_mul (float_div (float_sub (float_mul 420 (float_div 52 12))
                                             (float_mul 20 (float_div 52 12))) 5200) 100)
            (variable_costs_percentages s))"
    and vc: "(variable_costs m, total_variable_costs m) =
        variable_costs_loop_float (retail_sales m) (total_service_sales m) (total_sales m)
          (variable_costs_percentages s') ([], 0)"
    and pr: "profit m = float_sub (float_sub 5200 (total_fixed_costs m)) (total_variable_costs m)"
    using option_case_exI [OF worked_example_float_case [OF assms]] by blast
  have tsc': "total_salary_cost m = 1820 - 1 / 2 ^ 42"
    unfolding tsc float_total_salary_cost by simp
  have tss': "total_service_sales m = 4764550387029333 / 2 ^ 40"
    unfolding tss by (rule float_total_service_sales)
  have rs': "retail_sales m = 7623280619246933 / 2 ^ 43"
    unfolding rs by (rule float_retail_sales)
  have mrc': "monthly_retail_commission m = 3049312247698773 / 2 ^ 45"
    unfolding mrc by (rule float_monthly_retail_commission)
  have vcp': "variable_costs_percentages s' =
        AList.update retail_commission_key 10
          (AList.update wages_key (2345624805922133 / 2 ^ 46) (variable_costs_percentages s))"
    unfolding vcp float_wages_percentage float_commission_percentage by (rule refl)
  from run p weekly float_52_12 tsc tsc' tss tss' rs rs' mrc mrc' ts tfc vcp' vc pr
  show ?thesis by blast
qed

theorem worked_example_witness:
  "\<exists>s' m. calculate_core_values_float float_sum example_session = Some (s', m)
    \<and> weekly_retail_sales m = 200
    \<and> weekly_salary_cost m = 420
    \<and> total_salary_cost m = 1820 - 1 / 2 ^ 42
    \<and> total_sales m = 5200
    \<and> total_fixed_costs m = 1200
    \<and> variable_costs_percentages s' =
        [(''Wages/Salaries (excluding retail commission)'', 2345624805922133 / 2 ^ 46),
         (''Retail Commission'', 10),
         (''Professional Stock'', 10),
         (''Retail Stock'', 50),
         (''Royalties/Franchise Fee'', 5)]
    \<and> profit m = float_sub (float_sub 5200 1200) (total_variable_costs m)"
proof -
  have fc: "float_sum (map snd (fixed_costs example_session)) = 1200"
    by (simp add: example_session_def float_sum_def float_0_plus_1000 float_weekly_total_sales)
  have "\<exists>s' m p. calculate_core_values_float float_sum example_session = Some (s', m)
    \<and> stylist_earnings_float (weekly_service_sales m)
        (float_div (retail_sales m) (float_div 52 12)) 40 10
        \<lparr>name = ''Stylist 1'', sales = 1000, guarantee = 0\<rparr> = Some p
    \<and> weekly_service_sales m = 1000
    \<and> weekly_retail_sales m = 200
    \<and> stylist_retail_sales_weekly p = 200
    \<and> service_commission_amount p = 400
    \<and> service_earnings p = 400
    \<and> retail_commission_amount p = 20
    \<and> total_earnings p = 420
    \<and> weekly_stylist_salary_cost m = 420
    \<and> weekly_salary_cost m = 420
    \<and> weekly_total_salary_cost m = 420
    \<and> float_div 52 12 = 4878899596318037 / 2 ^ 50
    \<and> total_salary_cost m = float_mul 420 (float_div 52 12)
    \<and> total_salary_cost m = 1820 - 1 / 2 ^ 42
    \<and> total_service_sales m = float_mul 1000 (float_div 52 12)
    \<and> total_service_sales m = 4764550387029333 / 2 ^ 40
    \<and> retail_sales m = float_mul 200 (float_div 52 12)
    \<and> retail_sales m = 7623280619246933 / 2 ^ 43
    \<and> monthly_retail_commission m = float_mul 20 (float_div 52 12)
    \<and> monthly_retail_commission m = 3049312247698773 / 2 ^ 45
    \<and> total_sales m = 5200
    \<and> total_fixed_costs m = float_sum (map snd (fixed_costs example_session))
    \<and> variable_costs_percentages s' =
        AList.update retail_commission_key 10
          (AList.update wages_key (2345624805922133 / 2 ^ 46)
            (variable_costs_percentages example_session))
    \<and> (variable_costs m, total_variable_costs m) =
        variable_costs_loop_float (retail_sales m) (total_service_sales m) (total_sales m)
          (variable_costs_percentages s') ([], 0)
    \<and> profit m = float_sub (float_sub 5200 (total_fixed_costs m)) (total_variable_costs m)"
    by (rule worked_example [where py_sum = float_sum and s = example_session
          and st = "\<lparr>name = ''Stylist 1'', sales = 1000, guarantee = 0\<rparr>"])
       (simp_all add: example_session_def float_sum_def float_0_plus_1000 float_0_plus_0)
  then obtain s' m where "calculate_core_values_float float_sum example_session = Some (s', m)"
    and "weekly_retail_sales m = 200" and "weekly_salary_cost m = 420"
    and "total_salary_cost m = 1820 - 1 / 2 ^ 42" and "total_sales m = 5200"
    and "total_fixed_costs m = float_sum (map snd (fixed_costs example_session))"
    and "variable_costs_percentages s' =
        AList.update retail_commission_key 10
          (AList.update wages_key (2345624805922133 / 2 ^ 46)
            (variable_costs_percentages example_session))"
    and "profit m = float_sub (float_sub 5200 (total_fixed_costs m)) (total_variable_costs m)"
    by blast
  then show ?thesis
    unfolding fc
    by (simp add: example_session_def wages_key_def retail_commission_key_def)
qed

section \<open>The undo stack holds at most ten states\<close>

lemma save_state_for_undo_stack:
  "undo_stack (save_state_for_undo s) =
     (if length (undo_stack s) \<ge> 10 then tl (undo_stack s) else undo_stack s) @ [current_state s]"
  by (simp add: save_state_for_undo_def Let_def)

lemma save_state_for_undo_length:
  "length (undo_stack s) \<le> 10 \<Longrightarrow> length (undo_stack (save_state_for_undo s)) \<le> 10"
  by (simp add: save_state_for_undo_stack)

lemma current_state_undo_stack [simp]:
  "current_state (t\<lparr>undo_stack := st\<rparr>) = current_state t"
  by (simp add: current_state_def)

lemma push_each_length:
  "length (undo_stack s) \<le> 10 \<Longrightarrow> length (undo_stack (push_each s ts)) \<le> 10"
proof (induction ts arbitrary: s)
  case Nil
  then show ?case by simp
next
  case (Cons t ts)
  have "length (undo_stack (save_state_for_undo (t\<lparr>undo_stack := undo_stack s\<rparr>))) \<le> 10"
    using Cons.prems by (intro save_state_for_undo_length) simp
  then show ?case
    using Cons.IH by simp
qed

lemma push_each_stack:
  "length (undo_stack s) \<le> 10 \<Longrightarrow>
   undo_stack (push_each s ts) =
     drop (length (undo_stack s) + length ts - 10) (undo_stack s @ map current_state ts)"
proof (induction ts arbitrary: s)
  case Nil
  then show ?case by simp
next
  case (Cons t ts)
  let ?s1 = "save_state_for_undo (t\<lparr>undo_stack := undo_stack s\<rparr>)"
  have len1: "length (undo_stack ?s1) \<le> 10"
    using Cons.prems by (intro save_state_for_undo_length) simp
  show ?case
  proof (cases "length (undo_stack s) = 10")
    case True
    then have ne: "undo_stack s \<noteq> []" by auto
    have st1: "undo_stack ?s1 = tl (undo_stack s) @ [current_state t]"
      using True by (simp add: save_state_for_undo_stack)
    have "undo_stack (push_each s (t # ts)) =
        drop (length (undo_stack ?s1) + length ts - 10) (undo_stack ?s1 @ map current_state ts)"
      using Cons.IH [OF len1] by simp
    also have "\<dots> = drop (length ts) (tl (undo_stack s) @ current_state t # map current_state ts)"
      using True by (simp add: st1)
    also have "\<dots> = drop (Suc (length ts)) (undo_stack s @ current_state t # map current_state ts)"
      using ne by (cases "undo_stack s") simp_all
    finally show ?thesis using True by simp
  next
    case False
    with Cons.prems have lt: "length (undo_stack s) < 10" by simp
    have st1: "undo_stack ?s1 = undo_stack s @ [current_state t]"
      using lt by (simp add: save_state_for_undo_stack)
    have "undo_stack (push_each s (t # ts)) =
        drop (length (undo_stack ?s1) + length ts - 10) (undo_stack ?s1 @ map current_state ts)"
      using Cons.IH [OF len1] by simp
    then show ?thesis by (simp add: st1)
  qed
qed

lemma undo_last_change_length:
  "length (undo_stack (fst (undo_last_change s))) \<le> length (undo_stack s)"
  by (simp add: undo_last_change_def Let_def)

text \<open>
  C8. The undo stack never holds more than ten states: a push, an undo and any run of
  pushes keep a stack of at most ten entries within ten; a push on a full stack drops the
  oldest entry and appends the new one; after eleven pushes on an empty stack the stack
  holds the last ten states pushed, the first one being gone; and an undo on an empty stack
  changes nothing and returns \<^verbatim>\<open>False\<close> (the caller then reports that there is nothing to
  undo).
\<close>

theorem undo_stack_bounded:
  "(length (undo_stack s) \<le> 10 \<longrightarrow>
      length (undo_stack (save_state_for_undo s)) \<le> 10
    \<and> length (undo_stack (fst (undo_last_change s))) \<le> 10
    \<and> length (undo_stack (push_each s ts)) \<le> 10)
   \<and> (length (undo_stack s) = 10 \<longrightarrow>
        undo_stack (save_state_for_undo s) = tl (undo_stack s) @ [current_state s])
   \<and> (undo_stack s = [] \<and> length ts = 11 \<longrightarrow>
        undo_stack (push_each s ts) = map current_state (tl ts)
      \<and> length (undo_stack (push_each s ts)) = 10)
   \<and> (undo_stack s = [] \<longrightarrow> undo_last_change s = (s, False))"
proof -
  have a: "length (undo_stack (fst (undo_last_change s))) \<le> 10" if "length (undo_stack s) \<le> 10"
    using undo_last_change_length [of s] that by simp
  have b: "undo_stack (push_each s ts) = map current_state (tl ts)"
    if "undo_stack s = []" "length ts = 11"
    using push_each_stack [of s ts] that by (simp add: drop_Suc drop_map)
  have c: "length (undo_stack (push_each s ts)) = 10" if "undo_stack s = []" "length ts = 11"
    using b [OF that] that by simp
  show ?thesis
    using a b c
    by (simp add: save_state_for_undo_length push_each_length save_state_for_undo_stack
        undo_last_change_def)
qed

lemma undo_after_push:
  assumes "undo_stack t = undo_stack (save_state_for_undo s)"
  shows "undo_last_change t =
     (t\<lparr>undo_stack := (if length (undo_stack s) \<ge> 10 then tl (undo_stack s) else undo_stack s),
        stylists := stylists s,
        retail_percentage := retail_percentage s,
        fixed_costs := fixed_costs s,
        variable_costs_percentages := variable_costs_percentages s,
        salary_settings := salary_settings s,
        trainees := trainees s,
        receptionists := receptionists s\<rparr>, True)"
  by (simp add: undo_last_change_def assms save_state_for_undo_stack current_state_def Let_def)

section \<open>Saving a scenario\<close>

lemma update_first_length [simp]: "length (update_first P f xs) = length xs"
  by (induction xs) simp_all




lemma calculate_core_values_keeps_scenarios:
  "\<exists>s' m. calculate_core_values s = Some (s', m) \<and> scenarios s' = scenarios s
     \<and> additional_income s' = additional_income s"
proof -
  obtain s' m where run: "calculate_core_values s = Some (s', m)"
    and upd: "s' = s\<lparr>variable_costs_percentages := variable_costs_percentages s'\<rparr>"
    using option_case_exI [OF calculate_core_values_frame_case [of s]] by blast
  have "scenarios s' = scenarios s" "additional_income s' = additional_income s"
    by (subst upd, simp)+
  with run show ?thesis by blast
qed

lemma save_current_plan_as_scenario_saved:
  assumes "new_scenario_name \<noteq> []"
    and "\<not> (length (scenarios s) \<ge> 3 \<and> map_of (scenarios s) new_scenario_name = None)"
  shows "\<exists>s' e. save_current_plan_as_scenario new_scenario_name scenario_description now s
            = Some (s', Scenario_saved)
          \<and> scenarios s' = AList.update new_scenario_name e (scenarios s)
          \<and> additional_income s' = additional_income s
          \<and> description e = scenario_description
          \<and> stylist_data e = stylists s
          \<and> sc_retail_percentage e = retail_percentage s
          \<and> trainee_data e = trainees s
          \<and> receptionist_data e = receptionists s
          \<and> sc_salary_settings e = salary_settings s
          \<and> sc_fixed_costs e = fixed_costs s
          \<and> sc_variable_costs_percentages e = variable_costs_percentages s"
proof -
  obtain s1 v1 where r1: "calculate_core_values s = Some (s1, v1)" and k1: "scenarios s1 = scenarios s"
    and a1: "additional_income s1 = additional_income s"
    using calculate_core_values_keeps_scenarios [of s] by blast
  obtain s2 v2 where r2: "calculate_core_values s1 = Some (s2, v2)" and k2: "scenarios s2 = scenarios s1"
    and a2: "additional_income s2 = additional_income s1"
    using calculate_core_values_keeps_scenarios [of s1] by blast
  obtain s3 v3 where r3: "calculate_core_values s2 = Some (s3, v3)" and k3: "scenarios s3 = scenarios s2"
    and a3: "additional_income s3 = additional_income s2"
    using calculate_core_values_keeps_scenarios [of s2] by blast
  obtain s4 v4 where r4: "calculate_core_values s3 = Some (s4, v4)" and k4: "scenarios s4 = scenarios s3"
    and a4: "additional_income s4 = additional_income s3"
    using calculate_core_values_keeps_scenarios [of s3] by blast
  obtain s5 v5 where r5: "calculate_core_values s4 = Some (s5, v5)" and k5: "scenarios s5 = scenarios s4"
    and a5: "additional_income s5 = additional_income s4"
    using calculate_core_values_keeps_scenarios [of s4] by blast
  obtain s6 v6 where r6: "calculate_core_values s5 = Some (s6, v6)" and k6: "scenarios s6 = scenarios s5"
    and a6: "additional_income s6 = additional_income s5"
    using calculate_core_values_keeps_scenarios [of s5] by blast
  obtain s7 v7 where r7: "calculate_core_values s6 = Some (s7, v7)" and k7: "scenarios s7 = scenarios s6"
    and a7: "additional_income s7 = additional_income s6"
    using calculate_core_values_keeps_scenarios [of s6] by blast
  have k: "scenarios s7 = scenarios s"
    using k1 k2 k3 k4 k5 k6 k7 by simp
  have a: "additional_income s7 = additional_income s"
    using a1 a2 a3 a4 a5 a6 a7 by simp
  let ?e = "\<lparr>description = scenario_description, timestamp = now,
             stylist_data = stylists s,
             sc_retail_percentage = retail_percentage s,
             trainee_data = trainees s,
             receptionist_data = receptionists s,
             sc_salary_settings = salary_settings s,
             sc_fixed_costs = fixed_costs s,
             sc_variable_costs_percentages = variable_costs_percentages s,
             metrics =
               \<lparr>monthly_service_sales = total_service_sales v1,
                monthly_retail_sales = retail_sales v2,
                monthly_total_sales = total_sales v3,
                monthly_fixed_costs = total_fixed_costs v4,
                monthly_variable_costs = total_variable_costs v5,
                monthly_profit = profit v6,
                sc_profit_margin = profit_margin v7\<rparr>\<rparr>"
  let ?s' = "s7\<lparr>scenarios := AList.update new_scenario_name ?e (scenarios s7),
                 current_scenario_name := new_scenario_name\<rparr>"
  have run: "save_current_plan_as_scenario new_scenario_name scenario_description now s
            = Some (?s', Scenario_saved)"
    using assms by (simp add: save_current_plan_as_scenario_def r1 r2 r3 r4 r5 r6 r7 Let_def)
  have "scenarios ?s' = AList.update new_scenario_name ?e (scenarios s)"
    "additional_income ?s' = additional_income s"
    by (simp_all add: k a)
  with run show ?thesis
    by (intro exI [of _ ?s'] exI [of _ ?e]) simp
qed


section \<open>The bounds at work\<close>

theorem undo_stack_bounded_witness:
  "undo_stack (push_each example_session eleven_edits) = map current_state (tl eleven_edits)
   \<and> length (undo_stack (push_each example_session eleven_edits)) = 10
   \<and> undo_last_change example_session = (example_session, False)
   \<and> length (undo_stack full_stack_session) = 10
   \<and> undo_stack (save_state_for_undo full_stack_session)
       = tl (undo_stack full_stack_session) @ [current_state full_stack_session]
   \<and> length (undo_stack (save_state_for_undo full_stack_session)) \<le> 10"
proof -
  have e: "undo_stack example_session = []"
    by (simp add: example_session_def)
  have l: "length eleven_edits = 11"
    by (simp add: eleven_edits_def)
  have a: "undo_stack (push_each example_session eleven_edits) = map current_state (tl eleven_edits)"
    "length (undo_stack (push_each example_session eleven_edits)) = 10"
    "undo_last_change example_session = (example_session, False)"
    using undo_stack_bounded [of example_session eleven_edits] e l by simp_all
  have f: "length (undo_stack full_stack_session) = 10"
    unfolding full_stack_session_def
    using undo_stack_bounded [of example_session "tl eleven_edits"] e l
      push_each_stack [of example_session "tl eleven_edits"]
    by simp
  have b: "undo_stack (save_state_for_undo full_stack_session)
       = tl (undo_stack full_stack_session) @ [current_state full_stack_session]"
    "length (undo_stack (save_state_for_undo full_stack_session)) \<le> 10"
    using undo_stack_bounded [of full_stack_session "[]"] f by simp_all
  from a f b show ?thesis by simp
qed


section \<open>No sales\<close>

text \<open>
  C5 as stated does not hold. With every stylist's weekly sales 0, a guarantee of 300 and
  additional income of 1000 a month, total monthly sales are 1000, so the two ratios are
  computed: the profit margin is -155 and the total wage cost percentage is 130.
\<close>

theorem zero_sales_counterexample:
  "map sales (stylists zero_sales_session) = [0]
   \<and> map_option (weekly_retail_sales \<circ> snd) (calculate_core_values zero_sales_session) = Some 0
   \<and> map_option (total_sales \<circ> snd) (calculate_core_values zero_sales_session) = Some 1000
   \<and> map_option (profit_margin \<circ> snd) (calculate_core_values zero_sales_session) = Some (- 155)
   \<and> map_option (total_wage_cost_percentage \<circ> snd) (calculate_core_values zero_sales_session)
       = Some 130"
  by (simp add: calculate_core_values_def zero_sales_session_def example_session_def Let_def
      stylist_earnings_def truediv_def weekly_to_monthly_def wages_key_def
      retail_commission_key_def base_value_def)

text \<open>
  C5, amended. When every stylist's weekly sales are 0, \<^verbatim>\<open>calculate_core_values\<close> returns
  (no division by zero), weekly retail sales are 0 and every stylist's retail share is 0.
  Total monthly sales are then the total additional income, and the profit margin and the
  total wage cost percentage are 0 when that total is not positive.
\<close>

theorem zero_sales:
  assumes "\<forall>st\<in>set (stylists s). sales st = 0"
  shows "\<exists>s' m. calculate_core_values s = Some (s', m)
    \<and> weekly_service_sales m = 0
    \<and> weekly_retail_sales m = 0
    \<and> (\<forall>st\<in>set (stylists s). \<exists>p.
          stylist_earnings (weekly_service_sales m) (retail_sales m / weekly_to_monthly)
            (service_commission_percentage (salary_settings s))
            (retail_commission_percentage (salary_settings s)) st = Some p
          \<and> stylist_retail_sales_weekly p = 0)
    \<and> total_additional_income m = sum_list (map snd (additional_income s))
    \<and> total_sales m = total_additional_income m
    \<and> (total_additional_income m \<le> 0 \<longrightarrow>
          profit_margin m = 0 \<and> total_wage_cost_percentage m = 0)"
proof -
  have z: "sum_list (map sales (stylists s)) = 0"
    using assms by (simp add: sum_list_all_zero)
  have "case calculate_core_values s of None \<Rightarrow> False
    | Some (s', m) \<Rightarrow>
      weekly_service_sales m = 0
    \<and> weekly_retail_sales m = 0
    \<and> (\<forall>st\<in>set (stylists s). \<exists>p.
          stylist_earnings (weekly_service_sales m) (retail_sales m / weekly_to_monthly)
            (service_commission_percentage (salary_settings s))
            (retail_commission_percentage (salary_settings s)) st = Some p
          \<and> stylist_retail_sales_weekly p = 0)
    \<and> total_additional_income m = sum_list (map snd (additional_income s))
    \<and> total_sales m = total_additional_income m
    \<and> (total_additional_income m \<le> 0 \<longrightarrow>
          profit_margin m = 0 \<and> total_wage_cost_percentage m = 0)"
    by (simp add: calculate_core_values_def Let_def z stylists_loop_payroll_totals truediv_def
        case_prod_beta stylist_earnings_Some)
  then show ?thesis
    by (rule option_case_exI)
qed

theorem zero_sales_witness:
  "\<exists>s' m. calculate_core_values idle_session = Some (s', m)
    \<and> weekly_retail_sales m = 0
    \<and> total_sales m = 0
    \<and> profit_margin m = 0
    \<and> total_wage_cost_percentage m = 0"
proof -
  have h: "\<forall>st\<in>set (stylists idle_session). sales st = 0"
    by (simp add: idle_session_def)
  have ai: "sum_list (map snd (additional_income idle_session)) = 0"
    by (simp add: idle_session_def example_session_def)
  from zero_sales [OF h] ai show ?thesis
    by auto
qed

section \<open>What an undo restores\<close>

text \<open>
  C9. An undo restores the seven fields that \<^verbatim>\<open>save_state_for_undo\<close> copies (lemma
  \<open>undo_after_push\<close>); \<^verbatim>\<open>additional_income\<close> is not among them. With marketing support
  of 500 when the state is pushed and set to 0 afterwards, the undo brings the retail
  percentage back from 30 to 20 and leaves the marketing support at 0.
\<close>

theorem undo_misses_additional_income:
  "snd (undo_last_change undo_edited) = True
   \<and> retail_percentage undo_original = 20
   \<and> retail_percentage undo_edited = 30
   \<and> retail_percentage (fst (undo_last_change undo_edited)) = 20
   \<and> additional_income undo_original = [(''Marketing Support'', 500), (''Retro Payments'', 0)]
   \<and> additional_income (fst (undo_last_change undo_edited))
       = [(''Marketing Support'', 0), (''Retro Payments'', 0)]"
  by (simp add: undo_last_change_def undo_edited_def undo_original_def save_state_for_undo_def
      current_state_def example_session_def Let_def)

section \<open>Saving a scenario and loading it again\<close>

lemmas eval_defs =
  calculate_core_values_def Let_def stylist_earnings_def truediv_def weekly_to_monthly_def
  wages_key_def retail_commission_key_def base_value_def example_session_def
  example_percentages_def

lemma calculate_core_values_inputs_only:
  assumes "stylists a = stylists b" "retail_percentage a = retail_percentage b"
    "fixed_costs a = fixed_costs b"
    "variable_costs_percentages a = variable_costs_percentages b"
    "salary_settings a = salary_settings b" "trainees a = trainees b"
    "receptionists a = receptionists b" "additional_income a = additional_income b"
  shows "map_option snd (calculate_core_values a) = map_option snd (calculate_core_values b)"
  by (simp add: calculate_core_values_def Let_def stylists_loop_payroll_totals truediv_def
        case_prod_beta assms)

text \<open>
  Loading a scenario that was saved gives back the seven fields the scenario holds, as
  they were when it was saved; additional income stays what it is when the scenario is
  loaded. The figures are those of the saved state when the additional income is, too.
\<close>

lemma load_after_save:
  assumes saved: "save_current_plan_as_scenario n d now s = Some (s1, Scenario_saved)"
    and held: "map_of (scenarios t) n = map_of (scenarios s1) n"
  shows "stylists (load_selected_scenario n t) = stylists s
    \<and> retail_percentage (load_selected_scenario n t) = retail_percentage s
    \<and> trainees (load_selected_scenario n t) = trainees s
    \<and> receptionists (load_selected_scenario n t) = receptionists s
    \<and> salary_settings (load_selected_scenario n t) = salary_settings s
    \<and> fixed_costs (load_selected_scenario n t) = fixed_costs s
    \<and> variable_costs_percentages (load_selected_scenario n t) = variable_costs_percentages s
    \<and> additional_income (load_selected_scenario n t) = additional_income t"
proof -
  from saved have n: "n \<noteq> []"
    by (auto simp: save_current_plan_as_scenario_def split: if_splits)
  from saved n have room: "\<not> (length (scenarios s) \<ge> 3 \<and> map_of (scenarios s) n = None)"
    by (auto simp: save_current_plan_as_scenario_def split: if_splits)
  from save_current_plan_as_scenario_saved [OF n room, of d now] saved
  obtain e where sc: "scenarios s1 = AList.update n e (scenarios s)"
    and e: "stylist_data e = stylists s" "sc_retail_percentage e = retail_percentage s"
      "trainee_data e = trainees s" "receptionist_data e = receptionists s"
      "sc_salary_settings e = salary_settings s" "sc_fixed_costs e = fixed_costs s"
      "sc_variable_costs_percentages e = variable_costs_percentages s"
    by auto
  have "map_of (scenarios t) n = Some e"
    by (simp add: held sc update_conv')
  then show ?thesis
    by (simp add: load_selected_scenario_def e)
qed

lemma reload_same_figures:
  assumes "save_current_plan_as_scenario n d now s = Some (s1, Scenario_saved)"
    and "map_of (scenarios t) n = map_of (scenarios s1) n"
    and "additional_income t = additional_income s"
  shows "map_option snd (calculate_core_values (load_selected_scenario n t))
       = map_option snd (calculate_core_values s)"
  using load_after_save [OF assms(1,2)] assms(3)
  by (intro calculate_core_values_inputs_only) simp_all

lemma scenario_original_run:
  "map_option (total_sales \<circ> snd) (calculate_core_values scenario_original) = Some 5700
   \<and> map_option (profit \<circ> snd) (calculate_core_values scenario_original) = Some (4585 / 3)"
  by (simp add: eval_defs scenario_original_def)

lemma scenario_saved_eq:
  "save_current_plan_as_scenario ''Plan A'' ''with marketing support'' ''2025-01-06 09:00''
     scenario_original =
   Some (scenario_original
          \<lparr>variable_costs_percentages :=
             [(''Wages/Salaries (excluding retail commission)'', 520000 / 17100),
              (''Retail Commission'', 10),
              (''Professional Stock'', 10),
              (''Retail Stock'', 50),
              (''Royalties/Franchise Fee'', 5)],
           scenarios := [(''Plan A'', plan_a)],
           current_scenario_name := ''Plan A''\<rparr>,
         Scenario_saved)"
  by (simp add: save_current_plan_as_scenario_def eval_defs scenario_original_def plan_a_def)

lemma scenario_restored_eq:
  "scenario_restored =
     scenario_original
       \<lparr>additional_income := [(''Marketing Support'', 0), (''Retro Payments'', 0)],
        scenarios := [(''Plan A'', plan_a)],
        current_scenario_name := ''Plan A''\<rparr>"
proof -
  have saved: "scenario_saved =
      scenario_original
          \<lparr>variable_costs_percentages :=
             [(''Wages/Salaries (excluding retail commission)'', 520000 / 17100),
              (''Retail Commission'', 10),
              (''Professional Stock'', 10),
              (''Retail Stock'', 50),
              (''Royalties/Franchise Fee'', 5)],
           scenarios := [(''Plan A'', plan_a)],
           current_scenario_name := ''Plan A''\<rparr>"
    unfolding scenario_saved_def scenario_saved_eq by simp
  show ?thesis
    unfolding scenario_restored_def scenario_edited_def saved
    by (simp add: load_selected_scenario_def scenario_original_def example_session_def plan_a_def)
qed

text \<open>
  C6. A scenario does not hold \<^verbatim>\<open>additional_income\<close>. The session is saved as 'Plan A'
  with marketing support of 500, the marketing support is set to 0, and 'Plan A' is loaded:
  the seven saved fields are those of the saved state, the additional income is not, and
  \<^verbatim>\<open>calculate_core_values\<close> gives total sales of 5200 and a profit of 3160/3 where the
  saved state gave 5700 and 4585/3, the figures the scenario itself has cached.
\<close>

theorem scenario_misses_additional_income:
  "map_option snd (save_current_plan_as_scenario ''Plan A'' ''with marketing support''
       ''2025-01-06 09:00'' scenario_original) = Some Scenario_saved
   \<and> additional_income scenario_original = [(''Marketing Support'', 500), (''Retro Payments'', 0)]
   \<and> additional_income scenario_restored = [(''Marketing Support'', 0), (''Retro Payments'', 0)]
   \<and> stylists scenario_restored = stylists scenario_original
   \<and> retail_percentage scenario_restored = retail_percentage scenario_original
   \<and> trainees scenario_restored = trainees scenario_original
   \<and> receptionists scenario_restored = receptionists scenario_original
   \<and> salary_settings scenario_restored = salary_settings scenario_original
   \<and> fixed_costs scenario_restored = fixed_costs scenario_original
   \<and> variable_costs_percentages scenario_restored = variable_costs_percentages scenario_original
   \<and> map_option (monthly_total_sales \<circ> metrics) (map_of (scenarios scenario_restored) ''Plan A'')
       = Some 5700
   \<and> map_option (total_sales \<circ> snd) (calculate_core_values scenario_original) = Some 5700
   \<and> map_option (total_sales \<circ> snd) (calculate_core_values scenario_restored) = Some 5200
   \<and> map_option (profit \<circ> snd) (calculate_core_values scenario_original) = Some (4585 / 3)
   \<and> map_option (profit \<circ> snd) (calculate_core_values scenario_restored) = Some (3160 / 3)"
proof -
  have restored: "map_option (total_sales \<circ> snd) (calculate_core_values scenario_restored) = Some 5200"
    "map_option (profit \<circ> snd) (calculate_core_values scenario_restored) = Some (3160 / 3)"
    by (simp_all add: scenario_restored_eq eval_defs scenario_original_def)
  have cached: "map_option (monthly_total_sales \<circ> metrics)
      (map_of (scenarios scenario_restored) ''Plan A'') = Some 5700"
    by (simp add: scenario_restored_eq plan_a_def)
  have fields: "additional_income scenario_original = [(''Marketing Support'', 500), (''Retro Payments'', 0)]"
    "additional_income scenario_restored = [(''Marketing Support'', 0), (''Retro Payments'', 0)]"
    "stylists scenario_restored = stylists scenario_original"
    "retail_percentage scenario_restored = retail_percentage scenario_original"
    "trainees scenario_restored = trainees scenario_original"
    "receptionists scenario_restored = receptionists scenario_original"
    "salary_settings scenario_restored = salary_settings scenario_original"
    "fixed_costs scenario_restored = fixed_costs scenario_original"
    "variable_costs_percentages scenario_restored = variable_costs_percentages scenario_original"
    by (simp_all add: scenario_restored_eq scenario_original_def)
  have saved: "map_option snd (save_current_plan_as_scenario ''Plan A'' ''with marketing support''
       ''2025-01-06 09:00'' scenario_original) = Some Scenario_saved"
    by (simp add: scenario_saved_eq)
  from saved fields cached scenario_original_run restored show ?thesis
    by simp
qed

section \<open>The profit helper and the engine\<close>

lemma profit_costs_loop_sum:
  "profit_costs_loop rs ts xs t =
     t + sum_list (map (\<lambda>(k, p). (if k = ''Retail Commission'' \<or> k = ''Retail Stock'' then rs else ts)
                                 * (p / 100)) xs)"
  by (induction xs arbitrary: t) (auto simp: Let_def add.assoc)

lemma helper_costs_vs_engine_costs:
  "sum_list (map (\<lambda>(k, p). (if k = ''Retail Commission'' \<or> k = ''Retail Stock'' then rs else ts)
                            * (p / 100)) xs) =
   sum_list (map (\<lambda>(k, p). base_value rs tss ts k * (p / 100)) xs)
   + (ts - tss) * sum_list (map (\<lambda>(k, p). p / 100) (filter (\<lambda>(k, p). k = ''Professional Stock'') xs))"
  by (induction xs) (auto simp: base_value_def algebra_simps)

lemma calculate_core_values_profit_case:
  "(case calculate_core_values s of None \<Rightarrow> False
    | Some (s', m) \<Rightarrow>
        total_variable_costs m =
          snd (variable_costs_loop (retail_sales m) (total_service_sales m) (total_sales m)
                 (variable_costs_percentages s') ([], 0))
      \<and> profit m = total_sales m - sum_list (map snd (fixed_costs s)) - total_variable_costs m
      \<and> retail_sales m = total_service_sales m * (retail_percentage s / 100)
      \<and> total_sales m = total_service_sales m + retail_sales m
                          + sum_list (map snd (additional_income s)))"
  by (simp add: calculate_core_values_def Let_def stylists_loop_payroll_totals truediv_def
        case_prod_beta algebra_simps)

lemma calculate_profit_vs_engine:
  assumes "sum_list (map snd (additional_income s)) = 0"
  shows "\<exists>s' m. calculate_core_values s = Some (s', m)
    \<and> calculate_profit (total_service_sales m) (retail_percentage s) (fixed_costs s)
         (variable_costs_percentages s')
       = profit m - retail_sales m *
           sum_list (map (\<lambda>(k, p). p / 100)
             (filter (\<lambda>(k, p). k = ''Professional Stock'') (variable_costs_percentages s')))"
proof -
  obtain s' m where run: "calculate_core_values s = Some (s', m)"
    and tv: "total_variable_costs m =
          snd (variable_costs_loop (retail_sales m) (total_service_sales m) (total_sales m)
                 (variable_costs_percentages s') ([], 0))"
    and pr: "profit m = total_sales m - sum_list (map snd (fixed_costs s)) - total_variable_costs m"
    and rs: "retail_sales m = total_service_sales m * (retail_percentage s / 100)"
    and ts: "total_sales m = total_service_sales m + retail_sales m
                          + sum_list (map snd (additional_income s))"
    using option_case_exI [OF calculate_core_values_profit_case [of s]] by blast
  have ts': "total_sales m = total_service_sales m + retail_sales m"
    using ts assms by simp
  have "calculate_profit (total_service_sales m) (retail_percentage s) (fixed_costs s)
         (variable_costs_percentages s')
      = total_sales m - sum_list (map snd (fixed_costs s))
        - profit_costs_loop (retail_sales m) (total_sales m) (variable_costs_percentages s') 0"
    by (simp add: calculate_profit_def Let_def ts' rs)
  also have "\<dots> = profit m - retail_sales m *
           sum_list (map (\<lambda>(k, p). p / 100)
             (filter (\<lambda>(k, p). k = ''Professional Stock'') (variable_costs_percentages s')))"
    unfolding profit_costs_loop_sum
      helper_costs_vs_engine_costs [where tss = "total_service_sales m"]
    by (simp add: pr tv variable_costs_loop_total ts')
  finally show ?thesis using run by blast
qed

lemma settled_run:
  "calculate_core_values settled_session = Some (settled_session, example_core_values)"
  by (simp add: settled_session_def eval_defs example_core_values_def)

text \<open>
  C10. \<^verbatim>\<open>calculate_profit\<close> takes total sales as the base of 'Professional Stock', the
  engine takes service sales. With no additional income the helper's profit is the
  engine's less retail sales * percentage / 100 for 'Professional Stock' (lemma
  \<open>calculate_profit_vs_engine\<close>): in the example, with 10 percent, the engine's profit is
  3160/3 and the helper's is 2900/3.
\<close>

theorem calculate_profit_differs:
  "calculate_core_values settled_session = Some (settled_session, example_core_values)
   \<and> sum_list (map snd (additional_income settled_session)) = 0
   \<and> map_of (variable_costs_percentages settled_session) ''Professional Stock'' = Some 10
   \<and> retail_sales example_core_values = 2600 / 3
   \<and> profit example_core_values = 3160 / 3
   \<and> calculate_profit (total_service_sales example_core_values)
        (retail_percentage settled_session) (fixed_costs settled_session)
        (variable_costs_percentages settled_session) = 2900 / 3"
  by (simp add: settled_run)
     (simp add: settled_session_def example_session_def example_percentages_def
        example_core_values_def calculate_profit_def Let_def)

end
